theory Spec2Isabelle
  imports Complex_Main
begin

section \<open>Dates\<close>

text \<open>
  A JavaScript \<open>Date\<close> is its time value: the number of milliseconds since
  1970-01-01T00:00:00Z, an integer. Instants are taken inside the range where
  the date arithmetic below stays representable, so a time value is an \<open>int\<close>.
  The \<open>UTC\<close> accessors read the time value directly. The accessors without
  \<open>UTC\<close> read it in the host's time zone, which is taken to be a fixed offset
  \<open>tz\<close> (in milliseconds, local = UTC + \<open>tz\<close>) without daylight-saving changes.
\<close>

type_synonym date = int

definition msPerDay :: int where
  "msPerDay = 86400000"

text \<open>\<open>d.setUTCHours(0, 0, 0, 0)\<close>\<close>
definition setUTCHours0 :: "date \<Rightarrow> date" where
  "setUTCHours0 t = t - t mod msPerDay"

text \<open>\<open>d.getUTCDay()\<close>: 0 = Sunday; 1970-01-01 was a Thursday.\<close>
definition getUTCDay :: "date \<Rightarrow> int" where
  "getUTCDay t = (t div msPerDay + 4) mod 7"

text \<open>\<open>d.setUTCDate(d.getUTCDate() + n)\<close>: the day of the month overflows into
  the neighbouring months, so the time value moves by \<open>n\<close> days.\<close>
definition addUTCDays :: "date \<Rightarrow> int \<Rightarrow> date" where
  "addUTCDays t n = t + n * msPerDay"

text \<open>\<open>d.setUTCMilliseconds(ms)\<close>: replaces the millisecond field.\<close>
definition setUTCMilliseconds :: "date \<Rightarrow> int \<Rightarrow> date" where
  "setUTCMilliseconds t ms = t - t mod 1000 + ms"

text \<open>\<open>d.setHours(0, 0, 0, 0)\<close> in the host's time zone.\<close>
definition setHours0 :: "int \<Rightarrow> date \<Rightarrow> date" where
  "setHours0 tz t = t - (t + tz) mod msPerDay"

text \<open>\<open>d.setHours(23, 59, 59, 999)\<close> in the host's time zone.\<close>
definition setHoursEndOfDay :: "int \<Rightarrow> date \<Rightarrow> date" where
  "setHoursEndOfDay tz t = setHours0 tz t + (23 * 3600000 + 59 * 60000 + 59 * 1000 + 999)"

text \<open>\<open>d.getDay()\<close> in the host's time zone.\<close>
definition getDay :: "int \<Rightarrow> date \<Rightarrow> int" where
  "getDay tz t = ((t + tz) div msPerDay + 4) mod 7"

text \<open>\<open>d.setDate(d.getDate() + n)\<close>; with a fixed offset a local day has
  \<open>msPerDay\<close> milliseconds.\<close>
definition addDays :: "date \<Rightarrow> int \<Rightarrow> date" where
  "addDays t n = t + n * msPerDay"

section \<open>Week boundaries\<close>

record weekBoundaries =
  wb_start :: date
  wb_end :: date

text \<open>\<open>getWeekBoundaries\<close> of \<open>services/week.service.ts\<close>.\<close>
definition getWeekBoundaries :: "date \<Rightarrow> int \<Rightarrow> weekBoundaries" where
  "getWeekBoundaries date weekStartDay =
     (let d = setUTCHours0 date;
          currentDay = getUTCDay d;
          daysSinceStart = currentDay - weekStartDay;
          daysSinceStart = (if daysSinceStart < 0 then daysSinceStart + 7 else daysSinceStart);
          weekStart = setUTCHours0 (addUTCDays d (- daysSinceStart));
          weekEnd = setUTCMilliseconds (addUTCDays weekStart 7) (- 1)
      in \<lparr>wb_start = weekStart, wb_end = weekEnd\<rparr>)"

text \<open>\<open>getWeekBoundaries\<close> of the utilities (imported by the controllers as
  \<open>getWeekBoundariesUtil\<close>): the same computation in the host's time zone; it
  returns \<open>{weekStart, weekEnd}\<close>.\<close>
definition getWeekBoundariesUtil :: "int \<Rightarrow> date \<Rightarrow> int \<Rightarrow> date \<times> date" where
  "getWeekBoundariesUtil tz date weekStartDay =
     (let d = date;
          currentDay = getDay tz d;
          daysToSubtract = currentDay - weekStartDay;
          daysToSubtract = (if daysToSubtract < 0 then daysToSubtract + 7 else daysToSubtract);
          weekStart = setHours0 tz (addDays d (- daysToSubtract));
          weekEnd = setHoursEndOfDay tz (addDays weekStart 6)
      in (weekStart, weekEnd))"

section \<open>Streak multiplier\<close>

text \<open>
  JavaScript numbers are modelled as exact reals. \<open>Math.round\<close> rounds to the
  nearest integer, halves upwards.
\<close>

definition Math_round :: "real \<Rightarrow> real" where
  "Math_round x = of_int \<lfloor>x + 1 / 2\<rfloor>"

text \<open>\<open>getStreakMultiplier\<close>: 1.0 + streak * 0.12, capped at 3.0.\<close>
definition getStreakMultiplier :: "int \<Rightarrow> real" where
  "getStreakMultiplier currentStreak =
     (if currentStreak \<le> 0 then 1.0
      else let multiplier = 1.0 + (of_int currentStreak * 0.12)
           in min multiplier 3.0)"

text \<open>The two other revisions of \<open>getStreakMultiplier\<close> kept in the utilities:
  1.12 + (streak - 1) * 0.1 rounded to two decimals and capped at 3.0, and
  1.0 + streak * 0.1 capped at 2.0.\<close>
definition getStreakMultiplier_offset :: "int \<Rightarrow> real" where
  "getStreakMultiplier_offset currentStreak =
     (if currentStreak \<le> 0 then 1.0
      else let multiplier = 1.12 + ((of_int currentStreak - 1) * 0.1)
           in min (Math_round (multiplier * 100) / 100) 3.0)"

definition getStreakMultiplier_weekly :: "int \<Rightarrow> real" where
  "getStreakMultiplier_weekly currentStreak =
     (if currentStreak \<le> 0 then 1.0
      else let multiplier = 1.0 + (of_int currentStreak * 0.1)
           in min multiplier 2.0)"

section \<open>Documents and collections\<close>

text \<open>
  The Mongoose documents the controllers read and write, with the fields they
  use. An \<open>ObjectId\<close> is a natural number; an optional field is an \<open>option\<close>.
  Strings (\<open>status\<close>, \<open>role\<close>, \<open>proofType\<close>) stay strings, as in the requests;
  they are only compared with literals or with the empty string. A
  \<open>description\<close> is measured and trimmed, so it is kept as JavaScript has it:
  the list of its UTF-16 code units, as integers.
\<close>

record user =
  u_id :: nat
  email :: string
  displayName :: "string option"
  avatarUrl :: "string option"

record track =
  t_id :: nat
  organizationId :: nat
  weekStartDay :: int

record organizationMembership =
  om_userId :: nat
  om_organizationId :: nat
  om_role :: string

text \<open>\<open>trackMembershipSchema\<close> with the daily streak fields.\<close>
record trackMembership =
  m_id :: nat
  m_userId :: nat
  m_trackId :: nat
  currentStreak :: int
  longestStreak :: int
  lastSubmissionDate :: "date option"

record submission =
  s_id :: nat
  userId :: nat
  trackId :: nat
  submissionDate :: date
  weekStart :: date
  weekEnd :: date
  description :: "int list"
  proofUrl :: string
  proofType :: string
  status :: string
  score :: "real option"
  verifiedBy :: "nat option"
  verifiedAt :: "date option"
  createdAt :: date

record db =
  users :: "user list"
  tracks :: "track list"
  organizationMemberships :: "organizationMembership list"
  trackMemberships :: "trackMembership list"
  submissions :: "submission list"

text \<open>
  A database call of a request may reject. The calls are named, and a request
  is run with the list of the calls that fail; a rejected call ends the handler
  with the error thrown and nothing further written.
\<close>

datatype db_op =
  FindSubmission | FindTrack | FindOrgMembership | FindTrackMembership
  | SaveTrackMembership | SaveSubmission | CreateSubmission

text \<open>\<open>Model.findById\<close>, \<open>Model.findOne\<close>: the first matching document.\<close>
definition Submission_findById :: "submission list \<Rightarrow> nat \<Rightarrow> submission option" where
  "Submission_findById ss i = find (\<lambda>s. s_id s = i) ss"

definition Track_findById :: "track list \<Rightarrow> nat \<Rightarrow> track option" where
  "Track_findById ts i = find (\<lambda>t. t_id t = i) ts"

text \<open>\<open>doc.save()\<close>: the stored document with the same \<open>_id\<close> is replaced.\<close>
definition Submission_save :: "submission \<Rightarrow> submission list \<Rightarrow> submission list" where
  "Submission_save s ss = map (\<lambda>x. if s_id x = s_id s then s else x) ss"

definition TrackMembership_save :: "trackMembership \<Rightarrow> trackMembership list \<Rightarrow> trackMembership list" where
  "TrackMembership_save m ms = map (\<lambda>x. if m_id x = m_id m then m else x) ms"

text \<open>A fresh \<open>_id\<close> for \<open>Model.create\<close>.\<close>
definition freshId :: "nat list \<Rightarrow> nat" where
  "freshId ids = Suc (fold max ids 0)"

text \<open>\<open>TrackMembership.create({userId, trackId, ...})\<close>: the streak fields take
  the schema defaults 0, 0 and no last submission date.\<close>
definition TrackMembership_create :: "nat \<Rightarrow> nat \<Rightarrow> db \<Rightarrow> db" where
  "TrackMembership_create uid tid d =
     d\<lparr>trackMemberships := trackMemberships d @
        [\<lparr>m_id = freshId (map m_id (trackMemberships d)), m_userId = uid, m_trackId = tid,
          currentStreak = 0, longestStreak = 0, lastSubmissionDate = None\<rparr>]\<rparr>"

section \<open>Responses\<close>

datatype body =
  ErrorBody string
  | VerifiedBody nat string "real option" "date option"
  | CreatedBody submission

record response =
  statusCode :: nat
  success :: bool
  body :: body

text \<open>
  What a handler can throw, as far as \<open>errorHandler\<close> tells errors apart: an
  \<open>AppError\<close> with its status code and message, an error with \<open>code\<close> 11000
  (MongoDB's duplicate key error), one named \<open>ValidationError\<close> with its
  message, one named \<open>CastError\<close>, anything else.
\<close>
datatype thrown =
  AppError nat string
  | MongoDuplicateKey
  | ValidationError string
  | CastError
  | OtherError

text \<open>
  A handler responds, or a database call of the list of failing calls rejects
  (\<open>Threw\<close>, with the call), or a database call rejects with an error the
  database state decides (\<open>ThrewError\<close>, with the error).
\<close>
datatype outcome = Responded response | Threw db_op | ThrewError thrown

definition sendSuccess :: "body \<Rightarrow> nat \<Rightarrow> response" where
  "sendSuccess data code = \<lparr>statusCode = code, success = True, body = data\<rparr>"

text \<open>\<open>sendError(res, error, statusCode = 400)\<close>: a call site that gives no
  status code is written with the default 400.\<close>
definition sendError :: "string \<Rightarrow> nat \<Rightarrow> response" where
  "sendError err code = \<lparr>statusCode = code, success = False, body = ErrorBody err\<rparr>"

definition sendCreated :: "body \<Rightarrow> response" where
  "sendCreated data = sendSuccess data 201"

definition sendNotFound :: "string \<Rightarrow> response" where
  "sendNotFound message = sendError message 404"


section \<open>Submissions: create and verify\<close>

text \<open>
  \<open>String.prototype.trim\<close> removes the leading and trailing code units that are
  ECMAScript white space or line terminators: TAB, LF, VT, FF, CR, SP, U+00A0,
  U+1680, U+2000 to U+200A, U+2028, U+2029, U+202F, U+205F, U+3000 and U+FEFF.
\<close>
definition isWhiteSpace :: "int \<Rightarrow> bool" where
  "isWhiteSpace c =
     (c \<in> set [0x09, 0x0A, 0x0B, 0x0C, 0x0D, 0x20, 0xA0, 0x1680, 0x2028, 0x2029,
                0x202F, 0x205F, 0x3000, 0xFEFF]
      \<or> (0x2000 \<le> c \<and> c \<le> 0x200A))"

definition trim :: "int list \<Rightarrow> int list" where
  "trim s = rev (dropWhile isWhiteSpace (rev (dropWhile isWhiteSpace s)))"

text \<open>The code units of an ASCII literal.\<close>
definition codeUnits :: "string \<Rightarrow> int list" where
  "codeUnits s = map of_char s"

text \<open>
  \<open>Submission.create\<close> under the unique index
  \<open>{userId: 1, trackId: 1, weekStart: 1}\<close> of \<open>submissionSchema\<close>: the insert is
  refused with a duplicate key error when a stored submission has the same
  three values.
\<close>
definition Submission_create :: "submission \<Rightarrow> submission list \<Rightarrow> thrown + submission list" where
  "Submission_create s ss =
     (if list_ex (\<lambda>x. userId x = userId s \<and> trackId x = trackId s \<and> weekStart x = weekStart s) ss
      then Inl MongoDuplicateKey
      else Inr (ss @ [s]))"

text \<open>
  The handlers of \<open>submission.controller.ts\<close> write and read a path
  \<open>submissionDate\<close>; the Submission schema kept in the source declares none, and
  the schema these handlers ran with is not there. How the store matches the
  filter \<open>submissionDate: today\<close> against a stored submission is therefore the
  parameter \<open>dateFilter\<close> of \<open>createSubmission\<close>. Under a schema that declares
  the path it compares the stored date (\<open>dateDeclared\<close>); under the schema of
  the source no stored document has the path and the filter matches none
  (\<open>dateUndeclared\<close>).
\<close>
definition dateDeclared :: "submission \<Rightarrow> date \<Rightarrow> bool" where
  "dateDeclared s today = (submissionDate s = today)"


definition getCurrentWeekBoundaries :: "date \<Rightarrow> int \<Rightarrow> weekBoundaries" where
  "getCurrentWeekBoundaries now wsd = getWeekBoundaries now wsd"

definition DAILY_SUBMISSION_POINTS :: real where
  "DAILY_SUBMISSION_POINTS = 10"

text \<open>
  \<open>createSubmission\<close> (daily): \<open>now\<close> is the instant the handler's
  \<open>new Date()\<close> calls read, \<open>uid\<close> is \<open>req.user._id\<close>, \<open>tid\<close> is
  \<open>req.params.trackId\<close>, the description and the two strings are the request
  body. The response body of a creation is given as the created document,
  whose fields it lists.
\<close>
definition createSubmission ::
  "int \<Rightarrow> (submission \<Rightarrow> date \<Rightarrow> bool) \<Rightarrow> db_op list \<Rightarrow> date \<Rightarrow> nat \<Rightarrow> nat
     \<Rightarrow> int list \<Rightarrow> string \<Rightarrow> string \<Rightarrow> db \<Rightarrow> outcome \<times> db" where
  "createSubmission tz dateFilter failing now uid tid descr purl ptype d =
     (if descr = [] \<or> length (trim descr) < 10 then
        (Responded (sendError ''Description must be at least 10 characters'' 400), d)
      else if purl = [] then
        (Responded (sendError ''Proof URL is required'' 400), d)
      else if ptype \<notin> set [''image'', ''file'', ''link''] then
        (Responded (sendError ''Invalid proof type. Must be image, file, or link'' 400), d)
      else if FindTrack \<in> set failing then (Threw FindTrack, d)
      else case Track_findById (tracks d) tid of
        None \<Rightarrow> (Responded (sendNotFound ''Track not found''), d)
      | Some track \<Rightarrow>
         (let today = setHours0 tz now;
              wb = getCurrentWeekBoundaries now (weekStartDay track)
          in if FindSubmission \<in> set failing then (Threw FindSubmission, d)
             else case find (\<lambda>s. userId s = uid \<and> trackId s = tid \<and> dateFilter s today)
                         (submissions d) of
               Some existingSubmission \<Rightarrow>
                 (Responded (sendError ''You have already submitted today. Come back tomorrow!'' 409), d)
             | None \<Rightarrow>
                 if CreateSubmission \<in> set failing then (Threw CreateSubmission, d)
                 else
                   (let submission =
                          \<lparr>s_id = freshId (map s_id (submissions d)), userId = uid, trackId = tid,
                           submissionDate = today, weekStart = wb_start wb, weekEnd = wb_end wb,
                           description = trim descr, proofUrl = purl, proofType = ptype,
                           status = ''pending'', score = None, verifiedBy = None,
                           verifiedAt = None, createdAt = now\<rparr>
                    in case Submission_create submission (submissions d) of
                         Inl err \<Rightarrow> (ThrewError err, d)
                       | Inr stored \<Rightarrow>
                           (Responded (sendCreated (CreatedBody submission)),
                            d\<lparr>submissions := stored\<rparr>))))"


text \<open>
  The streak block of \<open>verifySubmission\<close> (daily), applied to the membership
  found and the submission's date; the handler then saves the membership.
\<close>
definition verifySubmission_streak :: "int \<Rightarrow> trackMembership \<Rightarrow> date \<Rightarrow> trackMembership" where
  "verifySubmission_streak tz membership subDate =
     (let submissionDate = setHours0 tz subDate;
          cs = (case lastSubmissionDate membership of
                  Some lastDate \<Rightarrow>
                    (let lastDateStart = setHours0 tz lastDate;
                         dayBefore = addDays submissionDate (- 1)
                     in if lastDateStart = dayBefore then currentStreak membership + 1
                        else if lastDateStart \<noteq> submissionDate then 1
                        else currentStreak membership)
                | None \<Rightarrow> 1);
          ls = (if cs > longestStreak membership then cs else longestStreak membership)
      in membership\<lparr>currentStreak := cs, longestStreak := ls,
                     lastSubmissionDate := Some submissionDate\<rparr>)"

text \<open>The end of \<open>verifySubmission\<close>: stamp the decision, save, respond.\<close>
definition verifySubmission_finish ::
  "db_op list \<Rightarrow> date \<Rightarrow> nat \<Rightarrow> string \<Rightarrow> submission \<Rightarrow> db \<Rightarrow> outcome \<times> db" where
  "verifySubmission_finish failing now verifierId st submission d =
     (let submission = submission\<lparr>status := st, verifiedBy := Some verifierId,
                                    verifiedAt := Some now\<rparr>
      in if SaveSubmission \<in> set failing then (Threw SaveSubmission, d)
         else (Responded (sendSuccess (VerifiedBody (s_id submission) (status submission)
                            (score submission) (verifiedAt submission)) 200),
               d\<lparr>submissions := Submission_save submission (submissions d)\<rparr>))"

text \<open>
  \<open>verifySubmission\<close> (daily): \<open>verifierId\<close> is \<open>req.user._id\<close>, \<open>i\<close> is
  \<open>req.params.id\<close>, \<open>st\<close> is \<open>req.body.status\<close>.
\<close>
definition verifySubmission ::
  "int \<Rightarrow> db_op list \<Rightarrow> date \<Rightarrow> nat \<Rightarrow> nat \<Rightarrow> string \<Rightarrow> db \<Rightarrow> outcome \<times> db" where
  "verifySubmission tz failing now verifierId i st d =
     (if st \<notin> set [''approved'', ''rejected''] then
        (Responded (sendError ''Status must be approved or rejected'' 400), d)
      else if FindSubmission \<in> set failing then (Threw FindSubmission, d)
      else case Submission_findById (submissions d) i of
        None \<Rightarrow> (Responded (sendNotFound ''Submission not found''), d)
      | Some submission \<Rightarrow>
         if FindTrack \<in> set failing then (Threw FindTrack, d)
         else case Track_findById (tracks d) (trackId submission) of
           None \<Rightarrow> (Responded (sendNotFound ''Track not found''), d)
         | Some track \<Rightarrow>
            if FindOrgMembership \<in> set failing then (Threw FindOrgMembership, d)
            else case find (\<lambda>om. om_userId om = verifierId
                                \<and> om_organizationId om = organizationId track
                                \<and> om_role om \<in> set [''owner'', ''admin''])
                        (organizationMemberships d) of
              None \<Rightarrow>
                (Responded (sendError ''Only organization admins can verify submissions'' 403), d)
            | Some orgMembership \<Rightarrow>
               if status submission \<noteq> ''pending'' then
                 (Responded (sendError ''Submission has already been verified'' 400), d)
               else if st = ''approved'' then
                 (let submission = submission\<lparr>score := Some DAILY_SUBMISSION_POINTS\<rparr>
                  in if FindTrackMembership \<in> set failing then (Threw FindTrackMembership, d)
                     else case find (\<lambda>m. m_userId m = userId submission
                                         \<and> m_trackId m = trackId submission)
                                 (trackMemberships d) of
                       Some membership \<Rightarrow>
                         (let membership =
                                verifySubmission_streak tz membership (submissionDate submission)
                          in if SaveTrackMembership \<in> set failing then
                               (Threw SaveTrackMembership, d)
                             else verifySubmission_finish failing now verifierId st submission
                                    (d\<lparr>trackMemberships :=
                                         TrackMembership_save membership (trackMemberships d)\<rparr>))
                     | None \<Rightarrow> verifySubmission_finish failing now verifierId st submission d)
               else
                 (let submission = submission\<lparr>score := Some 0\<rparr>
                  in verifySubmission_finish failing now verifierId st submission d))"

text \<open>
  The weekly revision of the streak block (kept beside the leaderboard
  controller) with its helper \<open>isPreviousWeek\<close>; its membership schema stores
  \<open>lastSubmissionWeek\<close>.
\<close>

record weeklyMembership =
  w_currentStreak :: int
  w_longestStreak :: int
  lastSubmissionWeek :: "date option"

definition isPreviousWeek :: "date option \<Rightarrow> date \<Rightarrow> int \<Rightarrow> bool" where
  "isPreviousWeek lastWeekStart currentWeekStart wsd =
     (case lastWeekStart of
        None \<Rightarrow> False
      | Some l \<Rightarrow> (let prevWeekStart = addDays currentWeekStart (- 7) in l = prevWeekStart))"

definition verifySubmission_streak_weekly ::
  "int \<Rightarrow> weeklyMembership \<Rightarrow> date \<Rightarrow> int \<Rightarrow> weeklyMembership" where
  "verifySubmission_streak_weekly tz membership subWeekStart wsd =
     (let currentWeekStart = fst (getWeekBoundariesUtil tz subWeekStart wsd);
          cs = (if isPreviousWeek (lastSubmissionWeek membership) currentWeekStart wsd then
                  w_currentStreak membership + 1
                else if lastSubmissionWeek membership = None
                        \<or> lastSubmissionWeek membership \<noteq> Some currentWeekStart then 1
                else w_currentStreak membership);
          ls = (if cs > w_longestStreak membership then cs else w_longestStreak membership)
      in membership\<lparr>w_currentStreak := cs, w_longestStreak := ls,
                     lastSubmissionWeek := Some currentWeekStart\<rparr>)"

section \<open>Histories\<close>

text \<open>
  The requests that touch memberships and submissions. A reachable database is
  the result of running a list of them, under one reading \<open>dateFilter\<close> of the
  \<open>submissionDate\<close> filter.
\<close>

datatype request =
  JoinTrack nat nat
  | CreateSubmissionReq "db_op list" date nat nat "int list" string string
  | VerifySubmissionReq "db_op list" date nat nat string

fun step :: "int \<Rightarrow> (submission \<Rightarrow> date \<Rightarrow> bool) \<Rightarrow> request \<Rightarrow> db \<Rightarrow> db" where
  "step tz dateFilter (JoinTrack uid tid) d = TrackMembership_create uid tid d"
| "step tz dateFilter (CreateSubmissionReq failing now uid tid descr purl ptype) d =
     snd (createSubmission tz dateFilter failing now uid tid descr purl ptype d)"
| "step tz dateFilter (VerifySubmissionReq failing now verifierId i st) d =
     snd (verifySubmission tz failing now verifierId i st d)"

fun run :: "int \<Rightarrow> (submission \<Rightarrow> date \<Rightarrow> bool) \<Rightarrow> request list \<Rightarrow> db \<Rightarrow> db" where
  "run tz dateFilter [] d = d"
| "run tz dateFilter (r # rs) d = run tz dateFilter rs (step tz dateFilter r d)"

section \<open>Leaderboard\<close>

text \<open>One document of the aggregation's result.\<close>
record aggRow =
  r_userId :: nat
  r_displayName :: string
  r_avatarUrl :: "string option"
  r_baseScore :: real
  r_submissionCount :: nat
  r_currentStreak :: int
  r_longestStreak :: int

record scoredEntry =
  le_userId :: nat
  userName :: string
  le_avatarUrl :: "string option"
  baseScore :: real
  submissionCount :: nat
  le_currentStreak :: int
  le_longestStreak :: int
  streakMultiplier :: real
  totalScore :: real

record leaderboardEntry = scoredEntry +
  rank :: nat

text \<open>
  The aggregation pipeline: match, group by user, look up the user and the
  membership, unwind, project. MongoDB leaves the order of the groups
  unspecified; here a group stands where its user's first submission stands.
\<close>
definition firstOccurrences :: "nat list \<Rightarrow> nat list" where
  "firstOccurrences xs = rev (remdups (rev xs))"

definition aggregate :: "nat \<Rightarrow> weekBoundaries \<Rightarrow> db \<Rightarrow> aggRow list" where
  "aggregate tid wb d =
     (let matched = filter (\<lambda>s. trackId s = tid \<and> weekStart s = wb_start wb
                                \<and> status s = ''approved'') (submissions d);
          groups = map (\<lambda>u. let mine = filter (\<lambda>s. userId s = u) matched
                             in (u, sum_list (map (\<lambda>s. case score s of Some x \<Rightarrow> x | None \<Rightarrow> 0) mine),
                                 length mine))
                       (firstOccurrences (map userId matched))
      in concat (map (\<lambda>(u, base, cnt).
           concat (map (\<lambda>usr.
             (let memberships = filter (\<lambda>m. m_userId m = u \<and> m_trackId m = tid) (trackMemberships d);
                  row = (\<lambda>m. \<lparr>r_userId = u,
                               r_displayName = (case displayName usr of Some n \<Rightarrow> n | None \<Rightarrow> email usr),
                               r_avatarUrl = avatarUrl usr,
                               r_baseScore = base, r_submissionCount = cnt,
                               r_currentStreak = (case m of Some x \<Rightarrow> currentStreak x | None \<Rightarrow> 0),
                               r_longestStreak = (case m of Some x \<Rightarrow> longestStreak x | None \<Rightarrow> 0)\<rparr>)
              in if memberships = [] then [row None] else map (\<lambda>m. row (Some m)) memberships))
             (filter (\<lambda>usr. u_id usr = u) (users d)))) groups))"

text \<open>The callback of \<open>results.map\<close>: multiplier and total score.\<close>
definition withMultiplier :: "aggRow \<Rightarrow> scoredEntry" where
  "withMultiplier entry =
     (let multiplier = getStreakMultiplier (r_currentStreak entry);
          total = Math_round (r_baseScore entry * multiplier * 100) / 100
      in \<lparr>le_userId = r_userId entry, userName = r_displayName entry,
          le_avatarUrl = r_avatarUrl entry, baseScore = r_baseScore entry,
          submissionCount = r_submissionCount entry,
          le_currentStreak = r_currentStreak entry, le_longestStreak = r_longestStreak entry,
          streakMultiplier = multiplier, totalScore = total\<rparr>)"

text \<open>\<open>sort((a, b) => b.totalScore - a.totalScore)\<close>: a stable sort, larger
  totals first.\<close>
definition sortByTotalDesc :: "scoredEntry list \<Rightarrow> scoredEntry list" where
  "sortByTotalDesc es = sort_key (\<lambda>e. - totalScore e) es"

text \<open>\<open>map((entry, index) => ({...entry, rank: index + 1}))\<close>\<close>
definition addRanks :: "scoredEntry list \<Rightarrow> leaderboardEntry list" where
  "addRanks es = map (\<lambda>(index, entry). scoredEntry.extend entry \<lparr>rank = index + 1\<rparr>)
                     (enumerate 0 es)"

definition rankResults :: "aggRow list \<Rightarrow> leaderboardEntry list" where
  "rankResults results = addRanks (sortByTotalDesc (map withMultiplier results))"

definition getWeeklyLeaderboard :: "nat \<Rightarrow> weekBoundaries \<Rightarrow> db \<Rightarrow> leaderboardEntry list" where
  "getWeeklyLeaderboard tid wb d = rankResults (aggregate tid wb d)"

section \<open>Example documents\<close>

text \<open>
  A track whose week starts on Monday, an organization admin (user 9), two
  members with a pending submission each for 2023-11-14; only the first member
  has a membership document.
\<close>
definition ex_db :: db where
  "ex_db =
     \<lparr>users = [\<lparr>u_id = 1, email = ''ada@example.org'', displayName = Some ''Ada'', avatarUrl = None\<rparr>,
               \<lparr>u_id = 2, email = ''bob@example.org'', displayName = None, avatarUrl = None\<rparr>,
               \<lparr>u_id = 9, email = ''admin@example.org'', displayName = None, avatarUrl = None\<rparr>],
      tracks = [\<lparr>t_id = 7, organizationId = 3, weekStartDay = 1\<rparr>],
      organizationMemberships = [\<lparr>om_userId = 9, om_organizationId = 3, om_role = ''admin''\<rparr>],
      trackMemberships =
        [\<lparr>m_id = 1, m_userId = 1, m_trackId = 7, currentStreak = 0, longestStreak = 0,
          lastSubmissionDate = None\<rparr>],
      submissions =
        [\<lparr>s_id = 1, userId = 1, trackId = 7, submissionDate = 1699920000000,
          weekStart = 1699833600000, weekEnd = 1700438399999,
          description = codeUnits ''read two chapters'', proofUrl = ''https://example.org/p1'',
          proofType = ''link'', status = ''pending'', score = None, verifiedBy = None,
          verifiedAt = None, createdAt = 1700000000123\<rparr>,
         \<lparr>s_id = 2, userId = 2, trackId = 7, submissionDate = 1699920000000,
          weekStart = 1699833600000, weekEnd = 1700438399999,
          description = codeUnits ''ran five kilometres'', proofUrl = ''https://example.org/p2'',
          proofType = ''link'', status = ''pending'', score = None, verifiedBy = None,
          verifiedAt = None, createdAt = 1700000000456\<rparr>]\<rparr>"

text \<open>The first submission as the admin's approval at 1700000100000 leaves it.\<close>
definition ex_approved :: submission where
  "ex_approved =
     \<lparr>s_id = 1, userId = 1, trackId = 7, submissionDate = 1699920000000,
      weekStart = 1699833600000, weekEnd = 1700438399999,
      description = codeUnits ''read two chapters'', proofUrl = ''https://example.org/p1'',
      proofType = ''link'', status = ''approved'', score = Some 10, verifiedBy = Some 9,
      verifiedAt = Some 1700000100000, createdAt = 1700000000123\<rparr>"

text \<open>The week of Monday 2023-11-13.\<close>
definition ex_week :: weekBoundaries where
  "ex_week = \<lparr>wb_start = 1699833600000, wb_end = 1700438399999\<rparr>"

text \<open>Two members with one approved submission of 10 points each and no
  membership document; the submission of user 2 is stored first.\<close>
definition ex_tie_db :: db where
  "ex_tie_db =
     \<lparr>users = [\<lparr>u_id = 1, email = ''ada@example.org'', displayName = Some ''Ada'', avatarUrl = None\<rparr>,
               \<lparr>u_id = 2, email = ''bob@example.org'', displayName = None, avatarUrl = None\<rparr>],
      tracks = [\<lparr>t_id = 7, organizationId = 3, weekStartDay = 1\<rparr>],
      organizationMemberships = [],
      trackMemberships = [],
      submissions =
        [\<lparr>s_id = 1, userId = 2, trackId = 7, submissionDate = 1699920000000,
          weekStart = 1699833600000, weekEnd = 1700438399999,
          description = codeUnits ''ran five kilometres'', proofUrl = ''https://example.org/p2'',
          proofType = ''link'', status = ''approved'', score = Some 10, verifiedBy = Some 9,
          verifiedAt = Some 1700000100000, createdAt = 1700000000123\<rparr>,
         \<lparr>s_id = 2, userId = 1, trackId = 7, submissionDate = 1699920000000,
          weekStart = 1699833600000, weekEnd = 1700438399999,
          description = codeUnits ''read two chapters'', proofUrl = ''https://example.org/p1'',
          proofType = ''link'', status = ''approved'', score = Some 10, verifiedBy = Some 9,
          verifiedAt = Some 1700000100000, createdAt = 1700000000456\<rparr>]\<rparr>"

text \<open>User 2 has 30 base points and no streak, user 1 has 20 base points and a
  streak of 5; the submissions of user 2 are stored first.\<close>
definition ex_board_db :: db where
  "ex_board_db =
     \<lparr>users = [\<lparr>u_id = 1, email = ''ada@example.org'', displayName = Some ''Ada'', avatarUrl = None\<rparr>,
               \<lparr>u_id = 2, email = ''bob@example.org'', displayName = None, avatarUrl = None\<rparr>],
      tracks = [\<lparr>t_id = 7, organizationId = 3, weekStartDay = 1\<rparr>],
      organizationMemberships = [],
      trackMemberships =
        [\<lparr>m_id = 1, m_userId = 1, m_trackId = 7, currentStreak = 5, longestStreak = 5,
          lastSubmissionDate = Some 1699920000000\<rparr>,
         \<lparr>m_id = 2, m_userId = 2, m_trackId = 7, currentStreak = 0, longestStreak = 0,
          lastSubmissionDate = None\<rparr>],
      submissions =
        [\<lparr>s_id = 1, userId = 2, trackId = 7, submissionDate = 1699920000000,
          weekStart = 1699833600000, weekEnd = 1700438399999,
          description = codeUnits ''ran five kilometres'', proofUrl = ''https://example.org/p2'',
          proofType = ''link'', status = ''approved'', score = Some 30, verifiedBy = Some 9,
          verifiedAt = Some 1700000100000, createdAt = 1700000000123\<rparr>,
         \<lparr>s_id = 2, userId = 1, trackId = 7, submissionDate = 1699833600000,
          weekStart = 1699833600000, weekEnd = 1700438399999,
          description = codeUnits ''read two chapters'', proofUrl = ''https://example.org/p1'',
          proofType = ''link'', status = ''approved'', score = Some 10, verifiedBy = Some 9,
          verifiedAt = Some 1700000100000, createdAt = 1700000000456\<rparr>,
         \<lparr>s_id = 3, userId = 1, trackId = 7, submissionDate = 1699920000000,
          weekStart = 1699833600000, weekEnd = 1700438399999,
          description = codeUnits ''read two more chapters'', proofUrl = ''https://example.org/p3'',
          proofType = ''link'', status = ''approved'', score = Some 10, verifiedBy = Some 9,
          verifiedAt = Some 1700000100000, createdAt = 1700000000789\<rparr>]\<rparr>"

text \<open>A membership with a streak of 3 (longest 5) whose last approved day is
  2023-11-14, and its weekly counterpart whose last approved week is that of
  Monday 2023-11-13.\<close>
definition ex_membership :: trackMembership where
  "ex_membership =
     \<lparr>m_id = 1, m_userId = 1, m_trackId = 7, currentStreak = 3, longestStreak = 5,
      lastSubmissionDate = Some 1699920000000\<rparr>"

definition ex_weeklyMembership :: weeklyMembership where
  "ex_weeklyMembership =
     \<lparr>w_currentStreak = 3, w_longestStreak = 5, lastSubmissionWeek = Some 1699833600000\<rparr>"

text \<open>A history: user 2 joins, user 1 is approved, user 2 is rejected, user 1
  submits on Monday 2023-11-20, the first day of the next week, and is
  approved.\<close>
definition ex_requests :: "request list" where
  "ex_requests =
     [JoinTrack 2 7,
      VerifySubmissionReq [] 1700000100000 9 1 ''approved'',
      VerifySubmissionReq [] 1700000200000 9 2 ''rejected'',
      CreateSubmissionReq [] 1700470000000 1 7 (codeUnits ''read a third chapter'')
        ''https://example.org/p4'' ''link'',
      VerifySubmissionReq [] 1700480000000 9 3 ''approved'']"

section \<open>Properties of the week boundaries\<close>

lemma msPerDay_pos: "0 < msPerDay"
  by (simp add: msPerDay_def)

lemma setUTCHours0_days: "setUTCHours0 t = (t div msPerDay) * msPerDay"
  unfolding setUTCHours0_def by (simp add: minus_mod_eq_div_mult)

lemma days_div: "(k * msPerDay) div msPerDay = k"
  using msPerDay_pos by simp

lemma days_mod: "(k * msPerDay) mod msPerDay = 0"
  by simp

lemma thousand_dvd_msPerDay: "(k * msPerDay) mod 1000 = 0"
  by (simp add: msPerDay_def)

lemma daysSinceStart_mod:
  fixes c d :: int
  assumes "0 \<le> d" "d \<le> 6" "0 \<le> c" "c \<le> 6"
  shows "(if c - d < 0 then c - d + 7 else c - d) = (c - d) mod 7"
proof (cases "c - d < 0")
  case True
  then have "0 \<le> c - d + 7" "c - d + 7 < 7" using assms by simp_all
  then have "(c - d + 7) mod 7 = c - d + 7" by (simp only: mod_pos_pos_trivial)
  then show ?thesis using True by simp
next
  case False
  then have "0 \<le> c - d" "c - d < 7" using assms by simp_all
  then have "(c - d) mod 7 = c - d" by (simp only: mod_pos_pos_trivial)
  then show ?thesis using False by simp
qed

lemma week_day_latest:
  fixes k D d :: int
  assumes "(k + 4) mod 7 = d" "k \<le> D"
  shows "k \<le> D - ((D + 4) mod 7 - d) mod 7"
proof -
  have "((D + 4) mod 7 - d) mod 7 = ((D + 4) mod 7 - (k + 4) mod 7) mod 7"
    using assms by simp
  also have "\<dots> = ((D + 4) - (k + 4)) mod 7"
    by (rule mod_diff_eq)
  also have "\<dots> = (D - k) mod 7" by simp
  also have "\<dots> \<le> D - k"
    using assms by (simp add: zmod_le_nonneg_dividend)
  finally show ?thesis by simp
qed

lemma week_day_hits:
  fixes D d :: int
  assumes "0 \<le> d" "d \<le> 6"
  shows "(D - ((D + 4) mod 7 - d) mod 7 + 4) mod 7 = d"
proof -
  have "(D - ((D + 4) mod 7 - d) mod 7 + 4) mod 7 = ((D + 4) - ((D + 4) mod 7 - d) mod 7) mod 7"
    by (simp add: algebra_simps)
  also have "\<dots> = ((D + 4) - ((D + 4) mod 7 - d)) mod 7"
    by (rule mod_diff_right_eq)
  also have "\<dots> = (((D + 4) - (D + 4) mod 7) + d) mod 7"
    by (simp add: algebra_simps)
  also have "\<dots> = ((D + 4) div 7 * 7 + d) mod 7"
    by (simp only: minus_mod_eq_div_mult)
  also have "\<dots> = d mod 7" by simp
  also have "\<dots> = d" using assms by simp
  finally show ?thesis .
qed

lemma getWeekBoundaries_start_days:
  assumes "0 \<le> d" "d \<le> 6"
  shows "wb_start (getWeekBoundaries t d)
           = (t div msPerDay - ((t div msPerDay + 4) mod 7 - d) mod 7) * msPerDay"
proof -
  let ?D = "t div msPerDay"
  let ?c = "(?D + 4) mod 7"
  have c: "getUTCDay (setUTCHours0 t) = ?c"
    by (simp add: getUTCDay_def setUTCHours0_days days_div)
  have n: "(if ?c - d < 0 then ?c - d + 7 else ?c - d) = (?c - d) mod 7"
    using assms by (intro daysSinceStart_mod) simp_all
  have "addUTCDays (setUTCHours0 t) (- ((?c - d) mod 7)) = (?D - (?c - d) mod 7) * msPerDay"
    by (simp add: addUTCDays_def setUTCHours0_days algebra_simps)
  then have "setUTCHours0 (addUTCDays (setUTCHours0 t) (- ((?c - d) mod 7)))
               = (?D - (?c - d) mod 7) * msPerDay"
    by (simp only: setUTCHours0_days days_div)
  then show ?thesis
    unfolding getWeekBoundaries_def Let_def c n by simp
qed

lemma getWeekBoundaries_end:
  "wb_end (getWeekBoundaries t d) = wb_start (getWeekBoundaries t d) + 7 * msPerDay - 1"
proof -
  define s where "s = wb_start (getWeekBoundaries t d)"
  have "\<exists>y. s = setUTCHours0 y"
    unfolding s_def getWeekBoundaries_def Let_def by auto
  then obtain k where k: "s = k * msPerDay"
    unfolding setUTCHours0_days by blast
  have e: "wb_end (getWeekBoundaries t d) = setUTCMilliseconds (addUTCDays s 7) (- 1)"
    unfolding s_def getWeekBoundaries_def Let_def by simp
  have a: "addUTCDays (k * msPerDay) 7 = (k + 7) * msPerDay"
    unfolding addUTCDays_def by (simp add: distrib_right)
  have "setUTCMilliseconds ((k + 7) * msPerDay) (- 1) = (k + 7) * msPerDay - 1"
    unfolding setUTCMilliseconds_def thousand_dvd_msPerDay by simp
  then have "wb_end (getWeekBoundaries t d) = s + 7 * msPerDay - 1"
    unfolding e k a by (simp add: distrib_right)
  then show ?thesis unfolding s_def .
qed

lemma setHours0_days: "setHours0 tz t = ((t + tz) div msPerDay) * msPerDay - tz"
proof -
  have "(t + tz) - (t + tz) mod msPerDay = (t + tz) div msPerDay * msPerDay"
    by (rule minus_mod_eq_div_mult)
  then show ?thesis unfolding setHours0_def by linarith
qed

lemma setHours0_local_midnight: "setHours0 tz (k * msPerDay - tz) = k * msPerDay - tz"
  unfolding setHours0_days by (simp add: days_div)

text \<open>The utilities' \<open>getWeekBoundaries\<close> ends its week seven days minus one
  millisecond after its start as well.\<close>
lemma getWeekBoundariesUtil_end:
  "snd (getWeekBoundariesUtil tz t d) = fst (getWeekBoundariesUtil tz t d) + 7 * msPerDay - 1"
proof -
  define s where "s = fst (getWeekBoundariesUtil tz t d)"
  have "\<exists>y. s = setHours0 tz y"
    unfolding s_def getWeekBoundariesUtil_def Let_def by auto
  then obtain k where k: "s = k * msPerDay - tz"
    unfolding setHours0_days by blast
  have e: "snd (getWeekBoundariesUtil tz t d) = setHoursEndOfDay tz (addDays s 6)"
    unfolding s_def getWeekBoundariesUtil_def Let_def by simp
  have "addDays (k * msPerDay - tz) 6 = (k + 6) * msPerDay - tz"
    unfolding addDays_def by (simp add: distrib_right)
  then have "setHours0 tz (addDays (k * msPerDay - tz) 6) = (k + 6) * msPerDay - tz"
    by (simp only: setHours0_local_midnight)
  then have "setHoursEndOfDay tz (addDays s 6) = s + 7 * msPerDay - 1"
    unfolding setHoursEndOfDay_def k by (simp add: msPerDay_def)
  then show ?thesis unfolding e s_def .
qed

text \<open>
  C3. For every instant and every week start day \<open>d\<close> in 0..6, the start
  returned by \<open>getWeekBoundaries\<close> is a UTC midnight, its weekday is \<open>d\<close>, it is
  not after the midnight of the instant, no other midnight of weekday \<open>d\<close> not
  after that midnight is later, it lies \<open>(weekday(instant) - d) mod 7\<close> days before
  that midnight, and the end is the start plus seven days minus one millisecond.
\<close>
theorem getWeekBoundaries_spec:
  assumes "0 \<le> d" "d \<le> 6"
  shows "wb_start (getWeekBoundaries instant d) mod msPerDay = 0
     \<and> getUTCDay (wb_start (getWeekBoundaries instant d)) = d
     \<and> wb_start (getWeekBoundaries instant d) \<le> setUTCHours0 instant
     \<and> (\<forall>t. t mod msPerDay = 0 \<and> getUTCDay t = d \<and> t \<le> setUTCHours0 instant
            \<longrightarrow> t \<le> wb_start (getWeekBoundaries instant d))
     \<and> wb_start (getWeekBoundaries instant d)
         = setUTCHours0 instant - ((getUTCDay instant - d) mod 7) * msPerDay
     \<and> wb_end (getWeekBoundaries instant d)
         = wb_start (getWeekBoundaries instant d) + 7 * msPerDay - 1"
proof -
  let ?D = "instant div msPerDay"
  let ?n = "((?D + 4) mod 7 - d) mod 7"
  have start: "wb_start (getWeekBoundaries instant d) = (?D - ?n) * msPerDay"
    using assms by (rule getWeekBoundaries_start_days)
  have midnight: "wb_start (getWeekBoundaries instant d) mod msPerDay = 0"
    by (simp only: start days_mod)
  have weekday: "getUTCDay (wb_start (getWeekBoundaries instant d)) = d"
    unfolding getUTCDay_def start days_div using assms by (rule week_day_hits)
  have "0 \<le> ?n" by simp
  then have "(?D - ?n) * msPerDay \<le> ?D * msPerDay"
    using msPerDay_pos by (simp add: mult_right_mono)
  then have before: "wb_start (getWeekBoundaries instant d) \<le> setUTCHours0 instant"
    by (simp only: start setUTCHours0_days)
  have latest: "t \<le> wb_start (getWeekBoundaries instant d)"
    if t: "t mod msPerDay = 0 \<and> getUTCDay t = d \<and> t \<le> setUTCHours0 instant" for t
  proof -
    from t have tk: "t = (t div msPerDay) * msPerDay"
      by (simp add: mod_eq_0_iff_dvd)
    from t have "(t div msPerDay + 4) mod 7 = d"
      by (simp add: getUTCDay_def)
    moreover have "t div msPerDay \<le> ?D"
    proof -
      from t have "t \<le> instant"
        unfolding setUTCHours0_def using msPerDay_pos
        by (smt (verit) pos_mod_sign)
      then show ?thesis using msPerDay_pos by (simp add: zdiv_mono1)
    qed
    ultimately have "t div msPerDay \<le> ?D - ?n"
      by (rule week_day_latest)
    then have "(t div msPerDay) * msPerDay \<le> (?D - ?n) * msPerDay"
      using msPerDay_pos by (simp add: mult_right_mono)
    then show ?thesis using tk start by simp
  qed
  have formula: "wb_start (getWeekBoundaries instant d)
         = setUTCHours0 instant - ((getUTCDay instant - d) mod 7) * msPerDay"
    by (simp add: start setUTCHours0_days getUTCDay_def algebra_simps)
  show ?thesis
    using midnight weekday before latest formula getWeekBoundaries_end by blast
qed

lemma getWeekBoundaries_example:
  "getWeekBoundaries 1700000000123 1 = \<lparr>wb_start = 1699833600000, wb_end = 1700438399999\<rparr>"
  by (simp add: getWeekBoundaries_def setUTCHours0_def getUTCDay_def addUTCDays_def
      setUTCMilliseconds_def msPerDay_def)

text \<open>The week of 2023-11-14T22:13:20.123Z with Monday as start day.\<close>
theorem getWeekBoundaries_spec_witness:
  "(0::int) \<le> 1 \<and> (1::int) \<le> 6
   \<and> getUTCDay (wb_start (getWeekBoundaries 1700000000123 1)) = 1
   \<and> wb_start (getWeekBoundaries 1700000000123 1) \<le> setUTCHours0 1700000000123
   \<and> wb_end (getWeekBoundaries 1700000000123 1)
       = wb_start (getWeekBoundaries 1700000000123 1) + 7 * msPerDay - 1"
proof -
  have h: "(0::int) \<le> 1" "(1::int) \<le> 6" by simp_all
  note w = getWeekBoundaries_spec [OF h, of 1700000000123]
  have a: "getUTCDay (wb_start (getWeekBoundaries 1700000000123 1)) = 1"
    using w by (elim conjE) assumption
  have b: "wb_start (getWeekBoundaries 1700000000123 1) \<le> setUTCHours0 1700000000123"
    using w by (elim conjE) assumption
  have c: "wb_end (getWeekBoundaries 1700000000123 1)
       = wb_start (getWeekBoundaries 1700000000123 1) + 7 * msPerDay - 1"
    using w by (elim conjE) assumption
  show ?thesis using h a b c by (intro conjI)
qed

section \<open>Properties of the streak multiplier\<close>

lemma getStreakMultiplier_mono:
  "s \<le> t \<Longrightarrow> getStreakMultiplier s \<le> getStreakMultiplier t"
  unfolding getStreakMultiplier_def Let_def by (auto simp: min_def)

lemma getStreakMultiplier_bounds:
  "1 \<le> getStreakMultiplier s \<and> getStreakMultiplier s \<le> 3"
  unfolding getStreakMultiplier_def Let_def by (auto simp: min_def)

text \<open>
  C4. \<open>getStreakMultiplier\<close> is 1 for a streak of at most 0 and
  \<open>min (1 + streak * 0.12) 3\<close> otherwise; it is monotonically non-decreasing; it
  never exceeds the cap 3, which it takes at a streak of 10000.
\<close>
theorem getStreakMultiplier_spec:
  "getStreakMultiplier s = (if s \<le> 0 then 1 else min (1 + of_int s * 0.12) 3)
   \<and> (s \<le> t \<longrightarrow> getStreakMultiplier s \<le> getStreakMultiplier t)
   \<and> 1 \<le> getStreakMultiplier s \<and> getStreakMultiplier s \<le> 3
   \<and> getStreakMultiplier 10000 = 3"
proof -
  have "getStreakMultiplier s = (if s \<le> 0 then 1 else min (1 + of_int s * 0.12) 3)"
    by (simp add: getStreakMultiplier_def)
  moreover have "getStreakMultiplier 10000 = 3"
    by (simp add: getStreakMultiplier_def)
  ultimately show ?thesis
    using getStreakMultiplier_mono [of s t] getStreakMultiplier_bounds [of s] by simp
qed

text \<open>Streaks 2 and 5.\<close>
theorem getStreakMultiplier_spec_witness:
  "(2::int) \<le> 5 \<and> getStreakMultiplier 2 \<le> getStreakMultiplier 5
   \<and> getStreakMultiplier 2 = 1.24 \<and> getStreakMultiplier 5 = 1.6"
proof -
  have "getStreakMultiplier 2 = 1.24" "getStreakMultiplier 5 = 1.6"
    by (simp_all add: getStreakMultiplier_def)
  then show ?thesis using getStreakMultiplier_spec [of 2 5] by simp
qed

text \<open>The two other revisions are monotone and capped as well, with their own
  slopes and caps.\<close>
lemma getStreakMultiplier_weekly_props:
  "(s \<le> t \<longrightarrow> getStreakMultiplier_weekly s \<le> getStreakMultiplier_weekly t)
   \<and> 1 \<le> getStreakMultiplier_weekly s \<and> getStreakMultiplier_weekly s \<le> 2"
  unfolding getStreakMultiplier_weekly_def Let_def by (auto simp: min_def)

lemma Math_round_of_int: "Math_round (of_int k) = of_int k"
proof -
  have "\<lfloor>of_int k + (1 / 2 :: real)\<rfloor> = k"
    by (rule floor_unique) simp_all
  then show ?thesis unfolding Math_round_def by simp
qed

lemma getStreakMultiplier_offset_eq:
  "getStreakMultiplier_offset s = (if s \<le> 0 then 1 else min (1.12 + (of_int s - 1) * 0.1) 3)"
proof (cases "s \<le> 0")
  case True
  then show ?thesis by (simp add: getStreakMultiplier_offset_def)
next
  case False
  define m :: real where "m = 1.12 + ((of_int s - 1) * 0.1)"
  have e: "m * 100 = of_int (102 + 10 * s)"
    unfolding m_def by (simp add: field_simps)
  have r: "Math_round (m * 100) / 100 = m"
    unfolding e Math_round_of_int unfolding e [symmetric] by simp
  have "getStreakMultiplier_offset s = min (Math_round (m * 100) / 100) 3"
    unfolding getStreakMultiplier_offset_def Let_def m_def using False by simp
  then have "getStreakMultiplier_offset s = min m 3"
    by (simp only: r)
  then show ?thesis
    unfolding m_def using False by simp
qed

lemma getStreakMultiplier_offset_props:
  "(s \<le> t \<longrightarrow> getStreakMultiplier_offset s \<le> getStreakMultiplier_offset t)
   \<and> 1 \<le> getStreakMultiplier_offset s \<and> getStreakMultiplier_offset s \<le> 3"
proof -
  have p: "1 \<le> min (1.12 + (of_int k - 1) * 0.1) (3::real)" if "\<not> k \<le> 0" for k :: int
  proof -
    have g: "1 \<le> min (1.12 + (x - 1) * 0.1) (3::real)" if "1 \<le> x" for x :: real
      using that by (auto simp: min_def field_simps)
    from \<open>\<not> k \<le> 0\<close> have "1 \<le> (of_int k :: real)" by linarith
    then show ?thesis by (rule g)
  qed
  have m: "getStreakMultiplier_offset s \<le> getStreakMultiplier_offset t" if "s \<le> t"
  proof (cases "s \<le> 0")
    case True
    then show ?thesis
      unfolding getStreakMultiplier_offset_eq using p [of t] by (cases "t \<le> 0") simp_all
  next
    case False
    have g: "min (1.12 + (x - 1) * 0.1) (3::real) \<le> min (1.12 + (y - 1) * 0.1) 3"
      if "x \<le> y" for x y :: real
      using that by (auto simp: min_def field_simps)
    from False that have "\<not> t \<le> 0" by simp
    moreover from that have "(of_int s :: real) \<le> of_int t" by simp
    ultimately show ?thesis
      unfolding getStreakMultiplier_offset_eq using False g [of "of_int s" "of_int t"]
      by (simp only: if_False)
  qed
  have b: "1 \<le> getStreakMultiplier_offset s \<and> getStreakMultiplier_offset s \<le> 3"
    unfolding getStreakMultiplier_offset_eq using p [of s] by (cases "s \<le> 0") simp_all
  show ?thesis using m b by blast
qed

section \<open>Properties of the streak update\<close>

lemma days_eq_iff: "(a * msPerDay - tz = b * msPerDay - tz) = (a = b)"
  using msPerDay_pos by simp

lemma verifySubmission_streak_current:
  "currentStreak (verifySubmission_streak tz m d) =
     (case lastSubmissionDate m of
        None \<Rightarrow> 1
      | Some l \<Rightarrow>
          if (l + tz) div msPerDay + 1 = (d + tz) div msPerDay then currentStreak m + 1
          else if (l + tz) div msPerDay = (d + tz) div msPerDay then currentStreak m
          else 1)"
proof (cases "lastSubmissionDate m")
  case None
  then show ?thesis by (simp add: verifySubmission_streak_def Let_def)
next
  case (Some l)
  let ?L = "(l + tz) div msPerDay" and ?D = "(d + tz) div msPerDay"
  have b: "addDays (setHours0 tz d) (- 1) = (?D - 1) * msPerDay - tz"
    unfolding addDays_def setHours0_days by (simp add: left_diff_distrib)
  have 1: "(setHours0 tz l = addDays (setHours0 tz d) (- 1)) = (?L + 1 = ?D)"
    unfolding b unfolding setHours0_days days_eq_iff by auto
  have 2: "(setHours0 tz l = setHours0 tz d) = (?L = ?D)"
    unfolding setHours0_days days_eq_iff ..
  show ?thesis
    unfolding verifySubmission_streak_def Let_def using Some
    by (simp add: 1 2)
qed

lemma verifySubmission_streak_longest:
  "longestStreak (verifySubmission_streak tz m d)
     = max (longestStreak m) (currentStreak (verifySubmission_streak tz m d))"
  unfolding verifySubmission_streak_def Let_def by (simp add: max_def)

lemma verifySubmission_streak_last:
  "lastSubmissionDate (verifySubmission_streak tz m d) = Some (setHours0 tz d)"
  unfolding verifySubmission_streak_def Let_def by simp

lemma verifySubmission_streak_weekly_current:
  "w_currentStreak (verifySubmission_streak_weekly tz m ws wsd) =
     (let cws = fst (getWeekBoundariesUtil tz ws wsd)
      in if lastSubmissionWeek m = Some (cws - 7 * msPerDay) then w_currentStreak m + 1
         else if lastSubmissionWeek m = Some cws then w_currentStreak m
         else 1)"
  unfolding verifySubmission_streak_weekly_def isPreviousWeek_def addDays_def Let_def
  using msPerDay_pos
  by (cases "lastSubmissionWeek m") auto

lemma verifySubmission_streak_weekly_longest:
  "w_longestStreak (verifySubmission_streak_weekly tz m ws wsd)
     = max (w_longestStreak m) (w_currentStreak (verifySubmission_streak_weekly tz m ws wsd))"
  unfolding verifySubmission_streak_weekly_def Let_def by (simp add: max_def)

lemma verifySubmission_streak_inv:
  "currentStreak (verifySubmission_streak tz m dt) \<le> longestStreak (verifySubmission_streak tz m dt)"
  by (simp add: verifySubmission_streak_longest)

lemma verifySubmission_streak_weekly_inv:
  "w_currentStreak (verifySubmission_streak_weekly tz m ws wsd)
     \<le> w_longestStreak (verifySubmission_streak_weekly tz m ws wsd)"
  by (simp add: verifySubmission_streak_weekly_longest)

lemma verifySubmission_streak_ids:
  "m_id (verifySubmission_streak tz m dt) = m_id m
   \<and> m_userId (verifySubmission_streak tz m dt) = m_userId m
   \<and> m_trackId (verifySubmission_streak tz m dt) = m_trackId m"
  unfolding verifySubmission_streak_def Let_def by simp

text \<open>
  C1. The streak update of \<open>verifySubmission\<close>, for every membership and every
  approved submission. Daily: when the last submission date lies on the local
  calendar day before the submission's day, \<open>currentStreak\<close> grows by exactly 1;
  when it lies on the same day, \<open>currentStreak\<close> is unchanged; otherwise (another
  day, or no last submission date) it becomes 1. Weekly: the same with the last
  submission week equal to the week start seven days before the submission's
  week start, equal to that week start, or anything else. In both,
  \<open>longestStreak\<close> does not decrease.
\<close>
theorem verifySubmission_streak_spec:
  "(\<forall>l. lastSubmissionDate m = Some l \<and> (l + tz) div msPerDay + 1 = (d + tz) div msPerDay
        \<longrightarrow> currentStreak (verifySubmission_streak tz m d) = currentStreak m + 1)
   \<and> (\<forall>l. lastSubmissionDate m = Some l \<and> (l + tz) div msPerDay = (d + tz) div msPerDay
        \<longrightarrow> currentStreak (verifySubmission_streak tz m d) = currentStreak m)
   \<and> ((lastSubmissionDate m = None
        \<or> (\<exists>l. lastSubmissionDate m = Some l
                \<and> (l + tz) div msPerDay + 1 \<noteq> (d + tz) div msPerDay
                \<and> (l + tz) div msPerDay \<noteq> (d + tz) div msPerDay))
        \<longrightarrow> currentStreak (verifySubmission_streak tz m d) = 1)
   \<and> longestStreak m \<le> longestStreak (verifySubmission_streak tz m d)
   \<and> (lastSubmissionWeek w = Some (fst (getWeekBoundariesUtil tz ws wsd) - 7 * msPerDay)
        \<longrightarrow> w_currentStreak (verifySubmission_streak_weekly tz w ws wsd) = w_currentStreak w + 1)
   \<and> (lastSubmissionWeek w = Some (fst (getWeekBoundariesUtil tz ws wsd))
        \<longrightarrow> w_currentStreak (verifySubmission_streak_weekly tz w ws wsd) = w_currentStreak w)
   \<and> (lastSubmissionWeek w \<noteq> Some (fst (getWeekBoundariesUtil tz ws wsd) - 7 * msPerDay)
        \<and> lastSubmissionWeek w \<noteq> Some (fst (getWeekBoundariesUtil tz ws wsd))
        \<longrightarrow> w_currentStreak (verifySubmission_streak_weekly tz w ws wsd) = 1)
   \<and> w_longestStreak w \<le> w_longestStreak (verifySubmission_streak_weekly tz w ws wsd)"
proof -
  have d1: "\<forall>l. lastSubmissionDate m = Some l \<and> (l + tz) div msPerDay + 1 = (d + tz) div msPerDay
        \<longrightarrow> currentStreak (verifySubmission_streak tz m d) = currentStreak m + 1"
    by (simp add: verifySubmission_streak_current)
  have d2: "\<forall>l. lastSubmissionDate m = Some l \<and> (l + tz) div msPerDay = (d + tz) div msPerDay
        \<longrightarrow> currentStreak (verifySubmission_streak tz m d) = currentStreak m"
    by (simp add: verifySubmission_streak_current)
  have d3: "(lastSubmissionDate m = None
        \<or> (\<exists>l. lastSubmissionDate m = Some l
                \<and> (l + tz) div msPerDay + 1 \<noteq> (d + tz) div msPerDay
                \<and> (l + tz) div msPerDay \<noteq> (d + tz) div msPerDay))
        \<longrightarrow> currentStreak (verifySubmission_streak tz m d) = 1"
    by (auto simp: verifySubmission_streak_current)
  have d4: "longestStreak m \<le> longestStreak (verifySubmission_streak tz m d)"
    by (simp add: verifySubmission_streak_longest)
  have w1: "lastSubmissionWeek w = Some (fst (getWeekBoundariesUtil tz ws wsd) - 7 * msPerDay)
        \<longrightarrow> w_currentStreak (verifySubmission_streak_weekly tz w ws wsd) = w_currentStreak w + 1"
    by (simp add: verifySubmission_streak_weekly_current Let_def)
  have w2: "lastSubmissionWeek w = Some (fst (getWeekBoundariesUtil tz ws wsd))
        \<longrightarrow> w_currentStreak (verifySubmission_streak_weekly tz w ws wsd) = w_currentStreak w"
    using msPerDay_pos by (simp add: verifySubmission_streak_weekly_current Let_def)
  have w3: "lastSubmissionWeek w \<noteq> Some (fst (getWeekBoundariesUtil tz ws wsd) - 7 * msPerDay)
        \<and> lastSubmissionWeek w \<noteq> Some (fst (getWeekBoundariesUtil tz ws wsd))
        \<longrightarrow> w_currentStreak (verifySubmission_streak_weekly tz w ws wsd) = 1"
    by (simp add: verifySubmission_streak_weekly_current Let_def)
  have w4: "w_longestStreak w \<le> w_longestStreak (verifySubmission_streak_weekly tz w ws wsd)"
    by (simp add: verifySubmission_streak_weekly_longest)
  show ?thesis
    using d1 d2 d3 d4 w1 w2 w3 w4 by (intro conjI)
qed

text \<open>The membership with streak 3 and last day 2023-11-14: an approval for
  2023-11-15 gives 4, one for 2023-11-14 leaves 3, one for 2023-11-17 gives 1;
  the weekly membership behaves alike for the weeks of 2023-11-20, 2023-11-13
  and 2023-11-27.\<close>
theorem verifySubmission_streak_spec_witness:
  "lastSubmissionDate ex_membership = Some 1699920000000
   \<and> currentStreak (verifySubmission_streak 0 ex_membership 1700006405000) = currentStreak ex_membership + 1
   \<and> currentStreak (verifySubmission_streak 0 ex_membership 1699920000777) = currentStreak ex_membership
   \<and> currentStreak (verifySubmission_streak 0 ex_membership 1700179200000) = 1
   \<and> longestStreak ex_membership \<le> longestStreak (verifySubmission_streak 0 ex_membership 1700179200000)
   \<and> w_currentStreak (verifySubmission_streak_weekly 0 ex_weeklyMembership 1700438400000 1)
       = w_currentStreak ex_weeklyMembership + 1
   \<and> w_currentStreak (verifySubmission_streak_weekly 0 ex_weeklyMembership 1699833600000 1)
       = w_currentStreak ex_weeklyMembership
   \<and> w_currentStreak (verifySubmission_streak_weekly 0 ex_weeklyMembership 1701043200000 1) = 1"
proof -
  have l: "lastSubmissionDate ex_membership = Some 1699920000000"
    by (simp add: ex_membership_def)
  have d1: "(1699920000000 + 0) div msPerDay + 1 = (1700006405000 + 0) div msPerDay"
    by (simp add: msPerDay_def)
  have d2: "(1699920000000 + 0) div msPerDay = (1699920000777 + 0) div msPerDay"
    by (simp add: msPerDay_def)
  have d3: "(1699920000000 + 0) div msPerDay + 1 \<noteq> (1700179200000 + 0) div msPerDay
          \<and> (1699920000000 + 0) div msPerDay \<noteq> (1700179200000 + 0) div msPerDay"
    by (simp add: msPerDay_def)
  have w1: "lastSubmissionWeek ex_weeklyMembership
              = Some (fst (getWeekBoundariesUtil 0 1700438400000 1) - 7 * msPerDay)"
    by code_simp
  have w2: "lastSubmissionWeek ex_weeklyMembership
              = Some (fst (getWeekBoundariesUtil 0 1699833600000 1))"
    by code_simp
  have w3: "lastSubmissionWeek ex_weeklyMembership
              \<noteq> Some (fst (getWeekBoundariesUtil 0 1701043200000 1) - 7 * msPerDay)
          \<and> lastSubmissionWeek ex_weeklyMembership
              \<noteq> Some (fst (getWeekBoundariesUtil 0 1701043200000 1))"
    by code_simp
  have a: "currentStreak (verifySubmission_streak 0 ex_membership 1700006405000) = currentStreak ex_membership + 1"
    using verifySubmission_streak_spec [of ex_membership 0 1700006405000] l d1 by simp
  have b: "currentStreak (verifySubmission_streak 0 ex_membership 1699920000777) = currentStreak ex_membership"
    using verifySubmission_streak_spec [of ex_membership 0 1699920000777] l d2 by simp
  have c: "currentStreak (verifySubmission_streak 0 ex_membership 1700179200000) = 1
      \<and> longestStreak ex_membership \<le> longestStreak (verifySubmission_streak 0 ex_membership 1700179200000)"
    using verifySubmission_streak_spec [of ex_membership 0 1700179200000] l d3 by simp
  have e: "w_currentStreak (verifySubmission_streak_weekly 0 ex_weeklyMembership 1700438400000 1)
       = w_currentStreak ex_weeklyMembership + 1"
    using verifySubmission_streak_spec [of _ 0 _ ex_weeklyMembership 1700438400000 1] w1 by blast
  have f: "w_currentStreak (verifySubmission_streak_weekly 0 ex_weeklyMembership 1699833600000 1)
       = w_currentStreak ex_weeklyMembership"
    using verifySubmission_streak_spec [of _ 0 _ ex_weeklyMembership 1699833600000 1] w2 by blast
  have g: "w_currentStreak (verifySubmission_streak_weekly 0 ex_weeklyMembership 1701043200000 1) = 1"
    using verifySubmission_streak_spec [of _ 0 _ ex_weeklyMembership 1701043200000 1] w3 by blast
  show ?thesis using l a b c e f g by (intro conjI) simp_all
qed

section \<open>Case analysis of the handlers\<close>

lemma verifySubmission_finish_cases:
  obtains (threw) "SaveSubmission \<in> set failing"
      "verifySubmission_finish failing now v st sub d = (Threw SaveSubmission, d)"
  | (saved) "SaveSubmission \<notin> set failing"
      "verifySubmission_finish failing now v st sub d =
         (Responded (sendSuccess (VerifiedBody (s_id sub) st (score sub) (Some now)) 200),
          d\<lparr>submissions := Submission_save
                (sub\<lparr>status := st, verifiedBy := Some v, verifiedAt := Some now\<rparr>) (submissions d)\<rparr>)"
  unfolding verifySubmission_finish_def Let_def by (cases "SaveSubmission \<in> set failing") simp_all

lemma verifySubmission_cases:
  obtains
    (bad_status) "st \<notin> set [''approved'', ''rejected'']"
      "verifySubmission tz failing now v i st d =
         (Responded (sendError ''Status must be approved or rejected'' 400), d)"
  | (threw) op where "op \<in> set failing" "op \<noteq> SaveSubmission"
      "verifySubmission tz failing now v i st d = (Threw op, d)"
  | (no_submission) "Submission_findById (submissions d) i = None"
      "verifySubmission tz failing now v i st d =
         (Responded (sendNotFound ''Submission not found''), d)"
  | (no_track) sub where "Submission_findById (submissions d) i = Some sub"
      "Track_findById (tracks d) (trackId sub) = None"
      "verifySubmission tz failing now v i st d =
         (Responded (sendNotFound ''Track not found''), d)"
  | (forbidden) sub t where "Submission_findById (submissions d) i = Some sub"
      "Track_findById (tracks d) (trackId sub) = Some t"
      "find (\<lambda>om. om_userId om = v \<and> om_organizationId om = organizationId t
                   \<and> om_role om \<in> set [''owner'', ''admin'']) (organizationMemberships d) = None"
      "verifySubmission tz failing now v i st d =
         (Responded (sendError ''Only organization admins can verify submissions'' 403), d)"
  | (already) sub where "Submission_findById (submissions d) i = Some sub"
      "status sub \<noteq> ''pending''"
      "verifySubmission tz failing now v i st d =
         (Responded (sendError ''Submission has already been verified'' 400), d)"
  | (rejected) sub where "Submission_findById (submissions d) i = Some sub"
      "status sub = ''pending''" "st = ''rejected''"
      "verifySubmission tz failing now v i st d =
         verifySubmission_finish failing now v st (sub\<lparr>score := Some 0\<rparr>) d"
  | (approved_no_membership) sub where "Submission_findById (submissions d) i = Some sub"
      "status sub = ''pending''" "st = ''approved''"
      "find (\<lambda>m. m_userId m = userId sub \<and> m_trackId m = trackId sub) (trackMemberships d) = None"
      "verifySubmission tz failing now v i st d =
         verifySubmission_finish failing now v st (sub\<lparr>score := Some DAILY_SUBMISSION_POINTS\<rparr>) d"
  | (approved) sub m where "Submission_findById (submissions d) i = Some sub"
      "status sub = ''pending''" "st = ''approved''"
      "find (\<lambda>m. m_userId m = userId sub \<and> m_trackId m = trackId sub) (trackMemberships d) = Some m"
      "verifySubmission tz failing now v i st d =
         verifySubmission_finish failing now v st (sub\<lparr>score := Some DAILY_SUBMISSION_POINTS\<rparr>)
           (d\<lparr>trackMemberships := TrackMembership_save
                 (verifySubmission_streak tz m (submissionDate sub)) (trackMemberships d)\<rparr>)"
proof (cases "st \<in> set [''approved'', ''rejected'']")
  case False
  then show ?thesis using bad_status by (simp add: verifySubmission_def)
next
  case st: True
  show ?thesis
  proof (cases "FindSubmission \<in> set failing")
    case True
    then show ?thesis using st threw [of FindSubmission] by (simp add: verifySubmission_def)
  next
    case f1: False
    show ?thesis
    proof (cases "Submission_findById (submissions d) i")
      case None
      then show ?thesis using st f1 no_submission by (simp add: verifySubmission_def)
    next
      case sub: (Some sub)
      show ?thesis
      proof (cases "FindTrack \<in> set failing")
        case True
        then show ?thesis using st f1 sub threw [of FindTrack] by (simp add: verifySubmission_def)
      next
        case f2: False
        show ?thesis
        proof (cases "Track_findById (tracks d) (trackId sub)")
          case None
          then show ?thesis using st f1 sub f2 no_track [of sub] by (simp add: verifySubmission_def)
        next
          case t: (Some t)
          show ?thesis
          proof (cases "FindOrgMembership \<in> set failing")
            case True
            then show ?thesis using st f1 sub f2 t threw [of FindOrgMembership]
              by (simp add: verifySubmission_def)
          next
            case f3: False
            show ?thesis
            proof (cases "find (\<lambda>om. om_userId om = v \<and> om_organizationId om = organizationId t
                   \<and> om_role om \<in> set [''owner'', ''admin'']) (organizationMemberships d)")
              case None
              then show ?thesis using st f1 sub f2 t f3 forbidden [of sub t]
                by (simp add: verifySubmission_def)
            next
              case om: (Some om)
              show ?thesis
              proof (cases "status sub = ''pending''")
                case False
                then show ?thesis using st f1 sub f2 t f3 om already [of sub]
                  by (simp add: verifySubmission_def)
              next
                case p: True
                show ?thesis
                proof (cases "st = ''approved''")
                  case False
                  then have "st = ''rejected''" using st by simp
                  then show ?thesis using st f1 sub f2 t f3 om p rejected [of sub]
                    by (simp add: verifySubmission_def)
                next
                  case a: True
                  show ?thesis
                  proof (cases "FindTrackMembership \<in> set failing")
                    case True
                    then show ?thesis using f1 sub f2 t f3 om p a threw [of FindTrackMembership]
                      by (simp add: verifySubmission_def)
                  next
                    case f4: False
                    show ?thesis
                    proof (cases "find (\<lambda>m. m_userId m = userId sub \<and> m_trackId m = trackId sub)
                                   (trackMemberships d)")
                      case None
                      then show ?thesis using f1 sub f2 t f3 om p a f4 approved_no_membership [of sub]
                        by (simp add: verifySubmission_def)
                    next
                      case m: (Some m)
                      show ?thesis
                      proof (cases "SaveTrackMembership \<in> set failing")
                        case True
                        then show ?thesis using f1 sub f2 t f3 om p a f4 m threw [of SaveTrackMembership]
                          by (simp add: verifySubmission_def)
                      next
                        case False
                        then show ?thesis using f1 sub f2 t f3 om p a f4 m approved [of sub m]
                          by (simp add: verifySubmission_def)
                      qed
                    qed
                  qed
                qed
              qed
            qed
          qed
        qed
      qed
    qed
  qed
qed

lemma verifySubmission_finish_ok:
  "verifySubmission_finish [] now v st sub d =
     (Responded (sendSuccess (VerifiedBody (s_id sub) st (score sub) (Some now)) 200),
      d\<lparr>submissions := Submission_save
            (sub\<lparr>status := st, verifiedBy := Some v, verifiedAt := Some now\<rparr>) (submissions d)\<rparr>)"
  by (cases "[] :: db_op list" now v st sub d rule: verifySubmission_finish_cases) simp_all

lemma createSubmission_cases:
  obtains
    (invalid) msg where
      "descr = [] \<or> length (trim descr) < 10 \<or> purl = [] \<or> ptype \<notin> set [''image'', ''file'', ''link'']"
      "createSubmission tz dateFilter failing now uid tid descr purl ptype d
         = (Responded (sendError msg 400), d)"
  | (threw) op where "op \<in> set failing"
      "createSubmission tz dateFilter failing now uid tid descr purl ptype d = (Threw op, d)"
  | (no_track) "Track_findById (tracks d) tid = None"
      "createSubmission tz dateFilter failing now uid tid descr purl ptype d =
         (Responded (sendNotFound ''Track not found''), d)"
  | (conflict) existing where
      "find (\<lambda>s. userId s = uid \<and> trackId s = tid \<and> dateFilter s (setHours0 tz now))
            (submissions d) = Some existing"
      "createSubmission tz dateFilter failing now uid tid descr purl ptype d =
         (Responded (sendError ''You have already submitted today. Come back tomorrow!'' 409), d)"
  | (duplicate) t where "Track_findById (tracks d) tid = Some t"
      "list_ex (\<lambda>x. userId x = uid \<and> trackId x = tid
                    \<and> weekStart x = wb_start (getWeekBoundaries now (weekStartDay t)))
               (submissions d)"
      "createSubmission tz dateFilter failing now uid tid descr purl ptype d
         = (ThrewError MongoDuplicateKey, d)"
  | (created) t where "Track_findById (tracks d) tid = Some t"
      "\<not> list_ex (\<lambda>x. userId x = uid \<and> trackId x = tid
                    \<and> weekStart x = wb_start (getWeekBoundaries now (weekStartDay t)))
               (submissions d)"
      "createSubmission tz dateFilter failing now uid tid descr purl ptype d =
         (Responded (sendCreated (CreatedBody
             \<lparr>s_id = freshId (map s_id (submissions d)), userId = uid, trackId = tid,
              submissionDate = setHours0 tz now,
              weekStart = wb_start (getWeekBoundaries now (weekStartDay t)),
              weekEnd = wb_end (getWeekBoundaries now (weekStartDay t)),
              description = trim descr, proofUrl = purl, proofType = ptype,
              status = ''pending'', score = None, verifiedBy = None,
              verifiedAt = None, createdAt = now\<rparr>)),
          d\<lparr>submissions := submissions d @
             [\<lparr>s_id = freshId (map s_id (submissions d)), userId = uid, trackId = tid,
              submissionDate = setHours0 tz now,
              weekStart = wb_start (getWeekBoundaries now (weekStartDay t)),
              weekEnd = wb_end (getWeekBoundaries now (weekStartDay t)),
              description = trim descr, proofUrl = purl, proofType = ptype,
              status = ''pending'', score = None, verifiedBy = None,
              verifiedAt = None, createdAt = now\<rparr>]\<rparr>)"
proof (cases "descr = [] \<or> length (trim descr) < 10")
  case True
  then show ?thesis
    using invalid [of "''Description must be at least 10 characters''"]
    by (auto simp: createSubmission_def)
next
  case v1: False
  show ?thesis
  proof (cases "purl = []")
    case True
    then show ?thesis using v1 invalid [of "''Proof URL is required''"]
      by (auto simp: createSubmission_def)
  next
    case v2: False
    show ?thesis
    proof (cases "ptype \<notin> set [''image'', ''file'', ''link'']")
      case True
      then show ?thesis
        using v1 v2 invalid [of "''Invalid proof type. Must be image, file, or link''"]
        by (auto simp: createSubmission_def)
    next
      case v3: False
      show ?thesis
      proof (cases "FindTrack \<in> set failing")
        case True
        then show ?thesis using v1 v2 v3 threw [of FindTrack] by (simp add: createSubmission_def)
      next
        case f1: False
        show ?thesis
        proof (cases "Track_findById (tracks d) tid")
          case None
          then show ?thesis using v1 v2 v3 f1 no_track by (simp add: createSubmission_def)
        next
          case t: (Some t)
          show ?thesis
          proof (cases "FindSubmission \<in> set failing")
            case True
            then show ?thesis using v1 v2 v3 f1 t threw [of FindSubmission]
              by (simp add: createSubmission_def Let_def)
          next
            case f2: False
            show ?thesis
            proof (cases "find (\<lambda>s. userId s = uid \<and> trackId s = tid
                              \<and> dateFilter s (setHours0 tz now)) (submissions d)")
              case (Some existing)
              then show ?thesis using v1 v2 v3 f1 t f2 conflict [of existing]
                by (simp add: createSubmission_def Let_def)
            next
              case n: None
              show ?thesis
              proof (cases "CreateSubmission \<in> set failing")
                case True
                then show ?thesis using v1 v2 v3 f1 t f2 n threw [of CreateSubmission]
                  by (simp add: createSubmission_def Let_def)
              next
                case f3: False
                show ?thesis
                proof (cases "list_ex (\<lambda>x. userId x = uid \<and> trackId x = tid
                                \<and> weekStart x = wb_start (getWeekBoundaries now (weekStartDay t)))
                              (submissions d)")
                  case True
                  then show ?thesis using v1 v2 v3 f1 t f2 n f3 duplicate [of t]
                    by (simp add: createSubmission_def Let_def getCurrentWeekBoundaries_def
                        Submission_create_def)
                next
                  case False
                  then show ?thesis using v1 v2 v3 f1 t f2 n f3 created [of t]
                    by (simp add: createSubmission_def Let_def getCurrentWeekBoundaries_def
                        Submission_create_def)
                qed
              qed
            qed
          qed
        qed
      qed
    qed
  qed
qed

lemma find_Some_ex: "find P xs = Some x \<Longrightarrow> \<exists>y \<in> set xs. P y"
  by (auto simp: find_Some_iff)

lemma find_Submission_save:
  assumes "Submission_findById ss i = Some sub" "s_id sub' = s_id sub"
  shows "Submission_findById (Submission_save sub' ss) i = Some sub'"
  using assms unfolding Submission_findById_def Submission_save_def
  by (induction ss) (auto split: if_splits)

lemma Submission_findById_id:
  "Submission_findById ss i = Some sub \<Longrightarrow> s_id sub = i"
  unfolding Submission_findById_def by (auto simp: find_Some_iff)


lemma find_TrackMembership_save:
  assumes "find P ms = Some m" and "P m'" and "m_id m' = m_id m"
  shows "find P (TrackMembership_save m' ms) = Some m'"
  using assms unfolding TrackMembership_save_def
  by (induction ms) (auto split: if_splits)

lemma verifySubmission_authorized:
  assumes "st \<in> set [''approved'', ''rejected'']" and "failing = []"
    and "Submission_findById (submissions d) i = Some sub"
    and "Track_findById (tracks d) (trackId sub) = Some t"
    and "\<exists>om \<in> set (organizationMemberships d).
            om_userId om = v \<and> om_organizationId om = organizationId t
            \<and> om_role om \<in> set [''owner'', ''admin'']"
    and "status sub = ''pending''"
  shows "verifySubmission tz failing now v i st d =
     (if st = ''approved'' then
        (case find (\<lambda>m. m_userId m = userId sub \<and> m_trackId m = trackId sub) (trackMemberships d) of
           Some m \<Rightarrow>
             verifySubmission_finish failing now v st (sub\<lparr>score := Some DAILY_SUBMISSION_POINTS\<rparr>)
               (d\<lparr>trackMemberships := TrackMembership_save
                   (verifySubmission_streak tz m (submissionDate sub)) (trackMemberships d)\<rparr>)
         | None \<Rightarrow>
             verifySubmission_finish failing now v st (sub\<lparr>score := Some DAILY_SUBMISSION_POINTS\<rparr>) d)
      else verifySubmission_finish failing now v st (sub\<lparr>score := Some 0\<rparr>) d)"
proof (cases tz failing now v i st d rule: verifySubmission_cases)
  case bad_status
  then show ?thesis using assms(1) by simp
next
  case (threw op)
  then show ?thesis using assms(2) by simp
next
  case no_submission
  then show ?thesis using assms(3) by simp
next
  case (no_track sub')
  then show ?thesis using assms(3,4) by simp
next
  case (forbidden sub' t')
  then have "sub' = sub" "t' = t" using assms(3,4) by simp_all
  then show ?thesis using forbidden(3) assms(5) by (auto simp: find_None_iff)
next
  case (already sub')
  then show ?thesis using assms(3,6) by simp
next
  case (rejected sub')
  then show ?thesis using assms(3) by simp
next
  case (approved_no_membership sub')
  then show ?thesis using assms(3) by simp
next
  case (approved sub' m)
  then show ?thesis using assms(3) by simp
qed

lemma verifySubmission_finish_trackMemberships:
  "trackMemberships (snd (verifySubmission_finish failing now v st sub d)) = trackMemberships d"
  by (cases failing now v st sub d rule: verifySubmission_finish_cases) simp_all

lemma verifySubmission_trackMemberships:
  "trackMemberships (snd (verifySubmission tz failing now v i st d)) = trackMemberships d
   \<or> (\<exists>sub m. Submission_findById (submissions d) i = Some sub
          \<and> status sub = ''pending'' \<and> st = ''approved''
          \<and> find (\<lambda>m. m_userId m = userId sub \<and> m_trackId m = trackId sub) (trackMemberships d) = Some m
          \<and> trackMemberships (snd (verifySubmission tz failing now v i st d))
              = TrackMembership_save (verifySubmission_streak tz m (submissionDate sub))
                  (trackMemberships d))"
proof (cases tz failing now v i st d rule: verifySubmission_cases)
  case (approved sub m)
  then show ?thesis by (simp add: verifySubmission_finish_trackMemberships)
qed (simp_all add: verifySubmission_finish_trackMemberships)

lemma createSubmission_trackMemberships:
  "trackMemberships (snd (createSubmission tz dateFilter failing now uid tid descr purl ptype d))
     = trackMemberships d"
  by (cases tz dateFilter failing now uid tid descr purl ptype d rule: createSubmission_cases)
     simp_all

lemma TrackMembership_save_set:
  "set (TrackMembership_save m ms) \<subseteq> insert m (set ms)"
  unfolding TrackMembership_save_def by auto

section \<open>Verification\<close>

lemma ex_db_first_approval:
  "verifySubmission 0 [] 1700000100000 9 1 ''approved'' ex_db
     = (Responded \<lparr>statusCode = 200, success = True,
                   body = VerifiedBody 1 ''approved'' (Some 10) (Some 1700000100000)\<rparr>,
        ex_db\<lparr>trackMemberships :=
                 [\<lparr>m_id = 1, m_userId = 1, m_trackId = 7, currentStreak = 1, longestStreak = 1,
                   lastSubmissionDate = Some 1699920000000\<rparr>],
               submissions := [ex_approved, submissions ex_db ! 1]\<rparr>)"
  by code_simp

text \<open>A completed approval stores the membership that the streak block
  computes.\<close>
lemma verifySubmission_approved_membership:
  assumes "Submission_findById (submissions d) i = Some sub" and "status sub = ''pending''"
    and "find (\<lambda>m. m_userId m = userId sub \<and> m_trackId m = trackId sub) (trackMemberships d) = Some m"
    and "Track_findById (tracks d) (trackId sub) = Some t"
    and "\<exists>om \<in> set (organizationMemberships d).
            om_userId om = v \<and> om_organizationId om = organizationId t
            \<and> om_role om \<in> set [''owner'', ''admin'']"
  shows "find (\<lambda>m. m_userId m = userId sub \<and> m_trackId m = trackId sub)
           (trackMemberships (snd (verifySubmission tz [] now v i ''approved'' d)))
         = Some (verifySubmission_streak tz m (submissionDate sub))"
proof -
  have e: "verifySubmission tz [] now v i ''approved'' d
        = verifySubmission_finish [] now v ''approved'' (sub\<lparr>score := Some DAILY_SUBMISSION_POINTS\<rparr>)
            (d\<lparr>trackMemberships := TrackMembership_save
                   (verifySubmission_streak tz m (submissionDate sub)) (trackMemberships d)\<rparr>)"
    using verifySubmission_authorized [OF _ _ assms(1) assms(4) assms(5) assms(2), of "''approved''" "[]" tz now]
      assms(3) by simp
  have P: "m_userId m = userId sub \<and> m_trackId m = trackId sub"
    using assms(3) by (auto simp: find_Some_iff)
  have "find (\<lambda>m. m_userId m = userId sub \<and> m_trackId m = trackId sub)
          (TrackMembership_save (verifySubmission_streak tz m (submissionDate sub)) (trackMemberships d))
        = Some (verifySubmission_streak tz m (submissionDate sub))"
    using assms(3) by (rule find_TrackMembership_save) (simp_all add: verifySubmission_streak_ids P)
  then show ?thesis
    unfolding e verifySubmission_finish_ok by simp
qed

text \<open>
  C5 as stated asks for a Conflict on the second decision. The second call on
  the approved submission is answered with status code 400, the default of
  \<open>sendError\<close>, not with 409.
\<close>
theorem verifySubmission_reverify_counterexample:
  "fst (verifySubmission 0 [] 1700000200000 9 1 ''rejected''
         (snd (verifySubmission 0 [] 1700000100000 9 1 ''approved'' ex_db)))
     = Responded \<lparr>statusCode = 400, success = False,
                  body = ErrorBody ''Submission has already been verified''\<rparr>"
  by code_simp

text \<open>
  C5 (as the code has it). For a submission whose status is not \<open>pending\<close>,
  \<open>verifySubmission\<close> leaves the database unchanged, hence the score, status,
  verifier and decision time of the first decision, and every response it
  sends is an error with status code 400, 403 or 404; for a well-formed request
  of an organization owner or admin, with no database call failing, the
  response is the error \<open>Submission has already been verified\<close> with status
  code 400.
\<close>
theorem verifySubmission_already_verified:
  assumes "Submission_findById (submissions d) i = Some sub" and "status sub \<noteq> ''pending''"
  shows "snd (verifySubmission tz failing now v i st d) = d
       \<and> (\<forall>r. fst (verifySubmission tz failing now v i st d) = Responded r
              \<longrightarrow> \<not> success r \<and> statusCode r \<in> {400, 403, 404})
       \<and> (st \<in> set [''approved'', ''rejected''] \<and> failing = []
            \<and> Track_findById (tracks d) (trackId sub) = Some t
            \<and> find (\<lambda>om. om_userId om = v \<and> om_organizationId om = organizationId t
                          \<and> om_role om \<in> set [''owner'', ''admin''])
                    (organizationMemberships d) = Some om
            \<longrightarrow> fst (verifySubmission tz failing now v i st d)
                  = Responded (sendError ''Submission has already been verified'' 400))"
proof (cases tz failing now v i st d rule: verifySubmission_cases)
  case bad_status
  then show ?thesis by (simp add: sendError_def)
next
  case (threw op)
  then show ?thesis by auto
next
  case no_submission
  then show ?thesis using assms by simp
next
  case (no_track sub')
  then show ?thesis using assms by (simp add: sendNotFound_def sendError_def)
next
  case (forbidden sub' t')
  then show ?thesis using assms by (auto simp: sendError_def)
next
  case (already sub')
  then show ?thesis by (auto simp: sendError_def)
next
  case (rejected sub')
  then show ?thesis using assms by simp
next
  case (approved_no_membership sub')
  then show ?thesis using assms by simp
next
  case (approved sub' m)
  then show ?thesis using assms by simp
qed

text \<open>The second decision on the approved example submission.\<close>
theorem verifySubmission_already_verified_witness:
  "Submission_findById
      (submissions (snd (verifySubmission 0 [] 1700000100000 9 1 ''approved'' ex_db))) 1
     = Some ex_approved
   \<and> status ex_approved \<noteq> ''pending''
   \<and> verifySubmission 0 [] 1700000200000 9 1 ''rejected''
        (snd (verifySubmission 0 [] 1700000100000 9 1 ''approved'' ex_db))
     = (Responded (sendError ''Submission has already been verified'' 400),
        snd (verifySubmission 0 [] 1700000100000 9 1 ''approved'' ex_db))"
proof -
  let ?d = "snd (verifySubmission 0 [] 1700000100000 9 1 ''approved'' ex_db)"
  have a: "Submission_findById (submissions ?d) 1 = Some ex_approved"
    by code_simp
  have b: "status ex_approved \<noteq> ''pending''"
    by code_simp
  have t: "Track_findById (tracks ?d) (trackId ex_approved)
             = Some \<lparr>t_id = 7, organizationId = 3, weekStartDay = 1\<rparr>"
    by code_simp
  have om: "find (\<lambda>om. om_userId om = 9
                \<and> om_organizationId om = organizationId \<lparr>t_id = 7, organizationId = 3, weekStartDay = 1\<rparr>
                \<and> om_role om \<in> set [''owner'', ''admin'']) (organizationMemberships ?d)
             = Some \<lparr>om_userId = 9, om_organizationId = 3, om_role = ''admin''\<rparr>"
    by code_simp
  from verifySubmission_already_verified [OF a b, of 0 "[]" 1700000200000 9 "''rejected''"
      "\<lparr>t_id = 7, organizationId = 3, weekStartDay = 1\<rparr>"
      "\<lparr>om_userId = 9, om_organizationId = 3, om_role = ''admin''\<rparr>"] t om
  have "snd (verifySubmission 0 [] 1700000200000 9 1 ''rejected'' ?d) = ?d
      \<and> fst (verifySubmission 0 [] 1700000200000 9 1 ''rejected'' ?d)
          = Responded (sendError ''Submission has already been verified'' 400)"
    by simp
  then have "verifySubmission 0 [] 1700000200000 9 1 ''rejected'' ?d
     = (Responded (sendError ''Submission has already been verified'' 400), ?d)"
    by (metis prod.collapse)
  then show ?thesis using a b by simp
qed

text \<open>
  C6 as stated asks for all or nothing. When \<open>submission.save()\<close> rejects
  during an approval, the membership has been saved already: its streak is 1
  in the database while both submissions are still pending.
\<close>
theorem verifySubmission_partial_counterexample:
  "verifySubmission 0 [SaveSubmission] 1700000100000 9 1 ''approved'' ex_db
     = (Threw SaveSubmission,
        ex_db\<lparr>trackMemberships :=
                 [\<lparr>m_id = 1, m_userId = 1, m_trackId = 7, currentStreak = 1, longestStreak = 1,
                   lastSubmissionDate = Some 1699920000000\<rparr>]\<rparr>)
   \<and> map status (submissions ex_db) = [''pending'', ''pending'']
   \<and> map currentStreak (trackMemberships ex_db) = [0]"
  by code_simp

text \<open>
  C6 (as the code has it). When \<open>verifySubmission\<close> fails (it throws, or sends
  an error response), the stored submissions are unchanged, so a pending
  submission stays pending; the whole database is unchanged unless the failure
  is the rejected \<open>submission.save()\<close> of an approval.
\<close>
theorem verifySubmission_failure_effects:
  assumes "\<forall>r. fst (verifySubmission tz failing now v i st d) = Responded r \<longrightarrow> \<not> success r"
  shows "submissions (snd (verifySubmission tz failing now v i st d)) = submissions d
       \<and> (fst (verifySubmission tz failing now v i st d) \<noteq> Threw SaveSubmission
            \<longrightarrow> snd (verifySubmission tz failing now v i st d) = d)
       \<and> (st \<noteq> ''approved'' \<longrightarrow> snd (verifySubmission tz failing now v i st d) = d)"
proof (cases tz failing now v i st d rule: verifySubmission_cases)
  case (rejected sub)
  then show ?thesis using assms
    by (cases failing now v st "sub\<lparr>score := Some 0\<rparr>" d rule: verifySubmission_finish_cases)
       (simp_all add: sendSuccess_def)
next
  case (approved_no_membership sub)
  then show ?thesis using assms
    by (cases failing now v st "sub\<lparr>score := Some DAILY_SUBMISSION_POINTS\<rparr>" d
          rule: verifySubmission_finish_cases)
       (simp_all add: sendSuccess_def)
next
  case (approved sub m)
  then show ?thesis using assms
    by (cases failing now v st "sub\<lparr>score := Some DAILY_SUBMISSION_POINTS\<rparr>"
          "d\<lparr>trackMemberships := TrackMembership_save
                 (verifySubmission_streak tz m (submissionDate sub)) (trackMemberships d)\<rparr>"
          rule: verifySubmission_finish_cases)
       (simp_all add: sendSuccess_def)
qed simp_all

text \<open>A rejected \<open>membership.save()\<close> leaves the example database as it was; a
  rejected \<open>submission.save()\<close> leaves its submissions as they were.\<close>
theorem verifySubmission_failure_effects_witness:
  "fst (verifySubmission 0 [SaveTrackMembership] 1700000100000 9 1 ''approved'' ex_db)
     = Threw SaveTrackMembership
   \<and> snd (verifySubmission 0 [SaveTrackMembership] 1700000100000 9 1 ''approved'' ex_db) = ex_db
   \<and> fst (verifySubmission 0 [SaveSubmission] 1700000100000 9 1 ''approved'' ex_db)
     = Threw SaveSubmission
   \<and> submissions (snd (verifySubmission 0 [SaveSubmission] 1700000100000 9 1 ''approved'' ex_db))
     = submissions ex_db"
proof -
  have a: "fst (verifySubmission 0 [SaveTrackMembership] 1700000100000 9 1 ''approved'' ex_db)
     = Threw SaveTrackMembership"
    by code_simp
  have b: "fst (verifySubmission 0 [SaveSubmission] 1700000100000 9 1 ''approved'' ex_db)
     = Threw SaveSubmission"
    by code_simp
  from verifySubmission_failure_effects [of 0 "[SaveTrackMembership]" 1700000100000 9 1 "''approved''" ex_db] a
  have c: "snd (verifySubmission 0 [SaveTrackMembership] 1700000100000 9 1 ''approved'' ex_db) = ex_db"
    by simp
  from verifySubmission_failure_effects [of 0 "[SaveSubmission]" 1700000100000 9 1 "''approved''" ex_db] b
  have d: "submissions (snd (verifySubmission 0 [SaveSubmission] 1700000100000 9 1 ''approved'' ex_db))
     = submissions ex_db"
    by simp
  show ?thesis using a b c d by (intro conjI)
qed

text \<open>
  C9. For a pending submission, \<open>verifySubmission\<close> with the decision
  \<open>rejected\<close> leaves the membership collection, and so every streak field,
  unchanged in every case; for a request of an organization owner or admin
  with no database call failing it responds 200 and stores the submission with
  score 0, status \<open>rejected\<close>, the verifier and the decision time.
\<close>
theorem verifySubmission_rejected:
  assumes "Submission_findById (submissions d) i = Some sub" and "status sub = ''pending''"
  shows "trackMemberships (snd (verifySubmission tz failing now v i ''rejected'' d)) = trackMemberships d
       \<and> (failing = []
            \<and> Track_findById (tracks d) (trackId sub) = Some t
            \<and> find (\<lambda>om. om_userId om = v \<and> om_organizationId om = organizationId t
                          \<and> om_role om \<in> set [''owner'', ''admin''])
                    (organizationMemberships d) = Some om
            \<longrightarrow> fst (verifySubmission tz failing now v i ''rejected'' d)
                  = Responded (sendSuccess (VerifiedBody i ''rejected'' (Some 0) (Some now)) 200)
              \<and> Submission_findById (submissions (snd (verifySubmission tz failing now v i ''rejected'' d))) i
                  = Some (sub\<lparr>score := Some 0, status := ''rejected'', verifiedBy := Some v,
                              verifiedAt := Some now\<rparr>))"
proof (intro conjI impI)
  show "trackMemberships (snd (verifySubmission tz failing now v i ''rejected'' d)) = trackMemberships d"
    using verifySubmission_trackMemberships [of tz failing now v i "''rejected''" d] by auto
next
  assume a: "failing = []
            \<and> Track_findById (tracks d) (trackId sub) = Some t
            \<and> find (\<lambda>om. om_userId om = v \<and> om_organizationId om = organizationId t
                          \<and> om_role om \<in> set [''owner'', ''admin''])
                    (organizationMemberships d) = Some om"
  then have f: "failing = []" and t: "Track_findById (tracks d) (trackId sub) = Some t" by simp_all
  from a have om: "\<exists>om \<in> set (organizationMemberships d).
                          om_userId om = v \<and> om_organizationId om = organizationId t
                          \<and> om_role om \<in> set [''owner'', ''admin'']"
    by (intro find_Some_ex [of _ _ om]) simp
  have i: "s_id sub = i" using assms(1) by (rule Submission_findById_id)
  have "verifySubmission tz failing now v i ''rejected'' d
        = verifySubmission_finish failing now v ''rejected'' (sub\<lparr>score := Some 0\<rparr>) d"
    using verifySubmission_authorized [OF _ f assms(1) t om assms(2), of "''rejected''" tz now]
    by simp
  then have e: "verifySubmission tz [] now v i ''rejected'' d
        = verifySubmission_finish [] now v ''rejected'' (sub\<lparr>score := Some 0\<rparr>) d"
    using f by simp
  show "fst (verifySubmission tz failing now v i ''rejected'' d)
                  = Responded (sendSuccess (VerifiedBody i ''rejected'' (Some 0) (Some now)) 200)"
    using i by (simp add: f e verifySubmission_finish_ok)
  have "Submission_findById (Submission_save
            (sub\<lparr>score := Some 0, status := ''rejected'', verifiedBy := Some v, verifiedAt := Some now\<rparr>)
            (submissions d)) i
          = Some (sub\<lparr>score := Some 0, status := ''rejected'', verifiedBy := Some v, verifiedAt := Some now\<rparr>)"
    using assms(1) by (rule find_Submission_save) simp
  then show "Submission_findById (submissions (snd (verifySubmission tz failing now v i ''rejected'' d))) i
                  = Some (sub\<lparr>score := Some 0, status := ''rejected'', verifiedBy := Some v,
                              verifiedAt := Some now\<rparr>)"
    by (simp add: f e verifySubmission_finish_ok)
qed

text \<open>The rejection of the second example submission.\<close>
theorem verifySubmission_rejected_witness:
  "Submission_findById (submissions ex_db) 2 = Some (submissions ex_db ! 1)
   \<and> status (submissions ex_db ! 1) = ''pending''
   \<and> trackMemberships (snd (verifySubmission 0 [] 1700000200000 9 2 ''rejected'' ex_db))
       = trackMemberships ex_db
   \<and> fst (verifySubmission 0 [] 1700000200000 9 2 ''rejected'' ex_db)
       = Responded (sendSuccess (VerifiedBody 2 ''rejected'' (Some 0) (Some 1700000200000)) 200)
   \<and> Submission_findById (submissions (snd (verifySubmission 0 [] 1700000200000 9 2 ''rejected'' ex_db))) 2
       = Some ((submissions ex_db ! 1)\<lparr>score := Some 0, status := ''rejected'',
                 verifiedBy := Some 9, verifiedAt := Some 1700000200000\<rparr>)"
proof -
  have a: "Submission_findById (submissions ex_db) 2 = Some (submissions ex_db ! 1)"
    by code_simp
  have b: "status (submissions ex_db ! 1) = ''pending''"
    by code_simp
  have t: "Track_findById (tracks ex_db) (trackId (submissions ex_db ! 1))
             = Some \<lparr>t_id = 7, organizationId = 3, weekStartDay = 1\<rparr>"
    by code_simp
  have om: "find (\<lambda>om. om_userId om = 9
                \<and> om_organizationId om = organizationId \<lparr>t_id = 7, organizationId = 3, weekStartDay = 1\<rparr>
                \<and> om_role om \<in> set [''owner'', ''admin'']) (organizationMemberships ex_db)
             = Some \<lparr>om_userId = 9, om_organizationId = 3, om_role = ''admin''\<rparr>"
    by code_simp
  from verifySubmission_rejected [OF a b, of 0 "[]" 1700000200000 9
      "\<lparr>t_id = 7, organizationId = 3, weekStartDay = 1\<rparr>"
      "\<lparr>om_userId = 9, om_organizationId = 3, om_role = ''admin''\<rparr>"] t om a b
  show ?thesis by simp
qed

text \<open>
  C10 as stated asks the approval to abort when the member has no membership
  document. User 2 has none; the approval of the submission of user 2 responds
  200, stores the submission as approved, and leaves the memberships as they
  were.
\<close>
theorem verifySubmission_missing_membership_counterexample:
  "find (\<lambda>m. m_userId m = 2 \<and> m_trackId m = 7) (trackMemberships ex_db) = None
   \<and> fst (verifySubmission 0 [] 1700000100000 9 2 ''approved'' ex_db)
       = Responded \<lparr>statusCode = 200, success = True,
                    body = VerifiedBody 2 ''approved'' (Some 10) (Some 1700000100000)\<rparr>
   \<and> map status (submissions (snd (verifySubmission 0 [] 1700000100000 9 2 ''approved'' ex_db)))
       = [''pending'', ''approved'']
   \<and> trackMemberships (snd (verifySubmission 0 [] 1700000100000 9 2 ''approved'' ex_db))
       = trackMemberships ex_db"
  by code_simp

text \<open>
  C10 (as the code has it). When no membership document exists for the
  submission's member and track, an approval skips the streak update: the
  membership collection is unchanged in every case, and for a request of an
  organization owner or admin with no database call failing the approval
  completes with response 200 and the submission stored as approved with 10
  points, the verifier and the decision time.
\<close>
theorem verifySubmission_without_membership:
  assumes "Submission_findById (submissions d) i = Some sub" and "status sub = ''pending''"
    and "find (\<lambda>m. m_userId m = userId sub \<and> m_trackId m = trackId sub) (trackMemberships d) = None"
  shows "trackMemberships (snd (verifySubmission tz failing now v i ''approved'' d)) = trackMemberships d
       \<and> (failing = []
            \<and> Track_findById (tracks d) (trackId sub) = Some t
            \<and> find (\<lambda>om. om_userId om = v \<and> om_organizationId om = organizationId t
                          \<and> om_role om \<in> set [''owner'', ''admin''])
                    (organizationMemberships d) = Some om
            \<longrightarrow> fst (verifySubmission tz failing now v i ''approved'' d)
                  = Responded (sendSuccess (VerifiedBody i ''approved''
                        (Some DAILY_SUBMISSION_POINTS) (Some now)) 200)
              \<and> Submission_findById (submissions (snd (verifySubmission tz failing now v i ''approved'' d))) i
                  = Some (sub\<lparr>score := Some DAILY_SUBMISSION_POINTS, status := ''approved'',
                              verifiedBy := Some v, verifiedAt := Some now\<rparr>))"
proof (intro conjI impI)
  show "trackMemberships (snd (verifySubmission tz failing now v i ''approved'' d)) = trackMemberships d"
    using verifySubmission_trackMemberships [of tz failing now v i "''approved''" d] assms
    by auto
next
  assume a: "failing = []
            \<and> Track_findById (tracks d) (trackId sub) = Some t
            \<and> find (\<lambda>om. om_userId om = v \<and> om_organizationId om = organizationId t
                          \<and> om_role om \<in> set [''owner'', ''admin''])
                    (organizationMemberships d) = Some om"
  then have f: "failing = []" and t: "Track_findById (tracks d) (trackId sub) = Some t" by simp_all
  from a have om: "\<exists>om \<in> set (organizationMemberships d).
                          om_userId om = v \<and> om_organizationId om = organizationId t
                          \<and> om_role om \<in> set [''owner'', ''admin'']"
    by (intro find_Some_ex [of _ _ om]) simp
  have i: "s_id sub = i" using assms(1) by (rule Submission_findById_id)
  have "verifySubmission tz failing now v i ''approved'' d
        = verifySubmission_finish failing now v ''approved'' (sub\<lparr>score := Some DAILY_SUBMISSION_POINTS\<rparr>) d"
    using verifySubmission_authorized [OF _ f assms(1) t om assms(2), of "''approved''" tz now] assms(3)
    by simp
  then have e: "verifySubmission tz [] now v i ''approved'' d
        = verifySubmission_finish [] now v ''approved'' (sub\<lparr>score := Some DAILY_SUBMISSION_POINTS\<rparr>) d"
    using f by simp
  show "fst (verifySubmission tz failing now v i ''approved'' d)
                  = Responded (sendSuccess (VerifiedBody i ''approved''
                        (Some DAILY_SUBMISSION_POINTS) (Some now)) 200)"
    using i by (simp add: f e verifySubmission_finish_ok)
  have "Submission_findById (Submission_save
            (sub\<lparr>score := Some DAILY_SUBMISSION_POINTS, status := ''approved'', verifiedBy := Some v, verifiedAt := Some now\<rparr>)
            (submissions d)) i
          = Some (sub\<lparr>score := Some DAILY_SUBMISSION_POINTS, status := ''approved'', verifiedBy := Some v, verifiedAt := Some now\<rparr>)"
    using assms(1) by (rule find_Submission_save) simp
  then show "Submission_findById (submissions (snd (verifySubmission tz failing now v i ''approved'' d))) i
                  = Some (sub\<lparr>score := Some DAILY_SUBMISSION_POINTS, status := ''approved'',
                              verifiedBy := Some v, verifiedAt := Some now\<rparr>)"
    by (simp add: f e verifySubmission_finish_ok)
qed

text \<open>The approval of the second example submission.\<close>
theorem verifySubmission_without_membership_witness:
  "Submission_findById (submissions ex_db) 2 = Some (submissions ex_db ! 1)
   \<and> status (submissions ex_db ! 1) = ''pending''
   \<and> find (\<lambda>m. m_userId m = userId (submissions ex_db ! 1) \<and> m_trackId m = trackId (submissions ex_db ! 1))
        (trackMemberships ex_db) = None
   \<and> trackMemberships (snd (verifySubmission 0 [] 1700000100000 9 2 ''approved'' ex_db))
       = trackMemberships ex_db
   \<and> fst (verifySubmission 0 [] 1700000100000 9 2 ''approved'' ex_db)
       = Responded (sendSuccess (VerifiedBody 2 ''approved'' (Some DAILY_SUBMISSION_POINTS)
                       (Some 1700000100000)) 200)"
proof -
  have a: "Submission_findById (submissions ex_db) 2 = Some (submissions ex_db ! 1)"
    by code_simp
  have b: "status (submissions ex_db ! 1) = ''pending''"
    by code_simp
  have c: "find (\<lambda>m. m_userId m = userId (submissions ex_db ! 1) \<and> m_trackId m = trackId (submissions ex_db ! 1))
        (trackMemberships ex_db) = None"
    by code_simp
  have t: "Track_findById (tracks ex_db) (trackId (submissions ex_db ! 1))
             = Some \<lparr>t_id = 7, organizationId = 3, weekStartDay = 1\<rparr>"
    by code_simp
  have om: "find (\<lambda>om. om_userId om = 9
                \<and> om_organizationId om = organizationId \<lparr>t_id = 7, organizationId = 3, weekStartDay = 1\<rparr>
                \<and> om_role om \<in> set [''owner'', ''admin'']) (organizationMemberships ex_db)
             = Some \<lparr>om_userId = 9, om_organizationId = 3, om_role = ''admin''\<rparr>"
    by code_simp
  from verifySubmission_without_membership [OF a b c, of 0 "[]" 1700000100000 9
      "\<lparr>t_id = 7, organizationId = 3, weekStartDay = 1\<rparr>"
      "\<lparr>om_userId = 9, om_organizationId = 3, om_role = ''admin''\<rparr>"] t om a b c
  show ?thesis by simp
qed

section \<open>The streak invariant\<close>

lemma step_streak_inv:
  assumes "\<forall>m \<in> set (trackMemberships d). currentStreak m \<le> longestStreak m"
  shows "\<forall>m \<in> set (trackMemberships (step tz dateFilter r d)). currentStreak m \<le> longestStreak m"
proof (cases r)
  case (JoinTrack uid tid)
  then show ?thesis using assms by (auto simp: TrackMembership_create_def)
next
  case (CreateSubmissionReq failing now uid tid descr purl ptype)
  then show ?thesis using assms by (simp add: createSubmission_trackMemberships)
next
  case (VerifySubmissionReq failing now v i st)
  from verifySubmission_trackMemberships [of tz failing now v i st d] show ?thesis
  proof (elim disjE exE conjE)
    assume "trackMemberships (snd (verifySubmission tz failing now v i st d)) = trackMemberships d"
    then show ?thesis using assms VerifySubmissionReq by simp
  next
    fix sub m
    assume saved: "trackMemberships (snd (verifySubmission tz failing now v i st d))
              = TrackMembership_save (verifySubmission_streak tz m (submissionDate sub))
                  (trackMemberships d)"
    show ?thesis
      unfolding VerifySubmissionReq step.simps saved
      using assms TrackMembership_save_set [of "verifySubmission_streak tz m (submissionDate sub)" "trackMemberships d"]
        verifySubmission_streak_inv [of tz m "submissionDate sub"]
      by auto
  qed
qed

text \<open>
  C7. \<open>longestStreak \<ge> currentStreak\<close> holds for every membership of every
  database reached by a history of joins, submissions and verifications
  (approvals and rejections, completed or failed), from a database where it
  holds, in particular from one without memberships.
\<close>
theorem streak_invariant:
  assumes "\<forall>m \<in> set (trackMemberships d). currentStreak m \<le> longestStreak m"
  shows "\<forall>m \<in> set (trackMemberships (run tz dateFilter rs d)). currentStreak m \<le> longestStreak m"
  using assms
proof (induction rs arbitrary: d)
  case Nil
  then show ?case by simp
next
  case (Cons r rs)
  from Cons.prems have "\<forall>m \<in> set (trackMemberships (step tz dateFilter r d)). currentStreak m \<le> longestStreak m"
    by (rule step_streak_inv)
  then show ?case using Cons.IH by simp
qed

text \<open>The example history ends with streaks 1 and 0.\<close>
theorem streak_invariant_witness:
  "map currentStreak (trackMemberships ex_db) = [0]
   \<and> map longestStreak (trackMemberships ex_db) = [0]
   \<and> map currentStreak (trackMemberships (run 0 dateDeclared ex_requests ex_db)) = [1, 0]
   \<and> list_all (\<lambda>m. currentStreak m \<le> longestStreak m) (trackMemberships (run 0 dateDeclared ex_requests ex_db))"
proof -
  have a: "\<forall>m \<in> set (trackMemberships ex_db). currentStreak m \<le> longestStreak m"
    by (simp add: ex_db_def)
  have b: "map currentStreak (trackMemberships ex_db) = [0]
     \<and> map longestStreak (trackMemberships ex_db) = [0]"
    by (simp add: ex_db_def)
  have c: "map currentStreak (trackMemberships (run 0 dateDeclared ex_requests ex_db)) = [1, 0]"
    by code_simp
  from streak_invariant [OF a, of 0 dateDeclared ex_requests]
  have "list_all (\<lambda>m. currentStreak m \<le> longestStreak m) (trackMemberships (run 0 dateDeclared ex_requests ex_db))"
    by (simp add: list_all_iff)
  then show ?thesis using b c by simp
qed

section \<open>Uniqueness of submissions\<close>













section \<open>Properties of the leaderboard\<close>

lemma extend_sel:
  "totalScore (scoredEntry.extend e \<lparr>rank = n\<rparr>) = totalScore e"
  "baseScore (scoredEntry.extend e \<lparr>rank = n\<rparr>) = baseScore e"
  "le_currentStreak (scoredEntry.extend e \<lparr>rank = n\<rparr>) = le_currentStreak e"
  "le_userId (scoredEntry.extend e \<lparr>rank = n\<rparr>) = le_userId e"
  "rank (scoredEntry.extend e \<lparr>rank = n\<rparr>) = n"
  "scoredEntry.truncate (scoredEntry.extend e \<lparr>rank = n\<rparr>) = e"
  by (simp_all add: scoredEntry.defs)

lemma truncate_sel:
  "totalScore (scoredEntry.truncate e) = totalScore e"
  "baseScore (scoredEntry.truncate e) = baseScore e"
  "le_currentStreak (scoredEntry.truncate e) = le_currentStreak e"
  "le_userId (scoredEntry.truncate e) = le_userId e"
  by (simp_all add: scoredEntry.defs)

lemma map_addRanks:
  assumes "\<And>e n. f (scoredEntry.extend e \<lparr>rank = n\<rparr>) = g e"
  shows "map f (addRanks es) = map g es"
proof -
  have "map f (map (\<lambda>(index, entry). scoredEntry.extend entry \<lparr>rank = index + 1\<rparr>) xs)
          = map g (map snd xs)" for xs :: "(nat \<times> scoredEntry) list"
    by (induction xs) (auto simp: assms)
  then show ?thesis
    unfolding addRanks_def by (simp only: map_snd_enumerate)
qed

lemma addRanks_rank: "map rank (addRanks es) = [1..<Suc (length es)]"
proof -
  have "map rank (map (\<lambda>(index, entry). scoredEntry.extend entry \<lparr>rank = index + 1\<rparr>) xs)
          = map Suc (map fst xs)" for xs :: "(nat \<times> scoredEntry) list"
    by (induction xs) (auto simp: extend_sel)
  then have "map rank (addRanks es) = map Suc (map fst (enumerate 0 es))"
    unfolding addRanks_def .
  also have "\<dots> = map Suc [0..<0 + length es]" by (simp only: map_fst_enumerate)
  also have "\<dots> = [1..<Suc (length es)]" by (simp add: map_Suc_upt)
  finally show ?thesis .
qed

lemma addRanks_truncate: "map scoredEntry.truncate (addRanks es) = es"
  using map_addRanks [of scoredEntry.truncate "\<lambda>e. e" es] by (simp add: extend_sel)

lemma addRanks_totalScore: "map totalScore (addRanks es) = map totalScore es"
  by (rule map_addRanks) (simp add: extend_sel)

lemma length_rankResults: "length (rankResults results) = length results"
  unfolding rankResults_def sortByTotalDesc_def addRanks_def by simp

lemma withMultiplier_totalScore:
  "totalScore (withMultiplier r)
     = Math_round (baseScore (withMultiplier r)
         * getStreakMultiplier (le_currentStreak (withMultiplier r)) * 100) / 100"
  unfolding withMultiplier_def Let_def by simp

lemma rankResults_truncate:
  "map scoredEntry.truncate (rankResults results) = sortByTotalDesc (map withMultiplier results)"
  unfolding rankResults_def by (rule addRanks_truncate)

lemma rankResults_totalScore:
  assumes "e \<in> set (rankResults results)"
  shows "totalScore e = Math_round (baseScore e * getStreakMultiplier (le_currentStreak e) * 100) / 100"
proof -
  have "scoredEntry.truncate e \<in> set (map scoredEntry.truncate (rankResults results))"
    using assms by simp
  then have "scoredEntry.truncate e \<in> set (map withMultiplier results)"
    unfolding rankResults_truncate sortByTotalDesc_def by simp
  then obtain r where r: "scoredEntry.truncate e = withMultiplier r" by auto
  have "totalScore (scoredEntry.truncate e)
     = Math_round (baseScore (scoredEntry.truncate e)
         * getStreakMultiplier (le_currentStreak (scoredEntry.truncate e)) * 100) / 100"
    unfolding r by (rule withMultiplier_totalScore)
  then show ?thesis
    unfolding truncate_sel .
qed

lemma rankResults_sorted:
  "sorted_wrt (\<lambda>a b. totalScore b \<le> totalScore a) (rankResults results)"
proof -
  have "sorted (map (\<lambda>e. - totalScore e) (sortByTotalDesc (map withMultiplier results)))"
    unfolding sortByTotalDesc_def by (rule sorted_sort_key)
  then have "sorted_wrt (\<lambda>a b. - a \<le> - b) (map totalScore (sortByTotalDesc (map withMultiplier results)))"
    by (simp add: sorted_map sorted_wrt_map)
  then have "sorted_wrt (\<lambda>a b. b \<le> a) (map totalScore (rankResults results))"
    unfolding rankResults_def addRanks_totalScore by simp
  then show ?thesis by (simp add: sorted_wrt_map)
qed

lemma rankResults_stable:
  "filter (\<lambda>e. totalScore e = k) (map scoredEntry.truncate (rankResults results))
     = filter (\<lambda>e. totalScore e = k) (map withMultiplier results)"
proof -
  have "filter (\<lambda>e. - totalScore e = - k) (sort_key (\<lambda>e. - totalScore e) (map withMultiplier results))
          = filter (\<lambda>e. - totalScore e = - k) (map withMultiplier results)"
    by (rule sort_key_stable)
  then show ?thesis
    unfolding rankResults_truncate sortByTotalDesc_def by simp
qed

text \<open>
  C2 as stated asks for ties broken by ascending member identity. With equal
  totals of 10 the leaderboard lists user 2 at rank 1 and user 1 at rank 2: the
  comparator reads only \<open>totalScore\<close>, and the stable sort keeps the order of the
  aggregation's result.
\<close>
theorem getWeeklyLeaderboard_tie_counterexample:
  "map totalScore (getWeeklyLeaderboard 7 ex_week ex_tie_db) = [10, 10]
   \<and> map le_userId (getWeeklyLeaderboard 7 ex_week ex_tie_db) = [2, 1]
   \<and> map rank (getWeeklyLeaderboard 7 ex_week ex_tie_db) = [1, 2]"
  by code_simp

text \<open>
  C2 (as the code has it). In the result of \<open>getWeeklyLeaderboard\<close> every
  \<open>totalScore\<close> is \<open>baseScore\<close> times the multiplier of the current streak,
  rounded to two decimals; the entries are in descending order of
  \<open>totalScore\<close>; entries with the same \<open>totalScore\<close> stand in the order in
  which the aggregation returned them; the ranks are 1, 2, 3, ... by position.
\<close>
theorem getWeeklyLeaderboard_ranking:
  "(\<forall>e \<in> set (getWeeklyLeaderboard tid wb d).
       totalScore e = Math_round (baseScore e * getStreakMultiplier (le_currentStreak e) * 100) / 100)
   \<and> sorted_wrt (\<lambda>a b. totalScore b \<le> totalScore a) (getWeeklyLeaderboard tid wb d)
   \<and> (\<forall>k. filter (\<lambda>e. totalScore e = k) (map scoredEntry.truncate (getWeeklyLeaderboard tid wb d))
          = filter (\<lambda>e. totalScore e = k) (map withMultiplier (aggregate tid wb d)))
   \<and> map rank (getWeeklyLeaderboard tid wb d) = [1..<Suc (length (getWeeklyLeaderboard tid wb d))]"
proof -
  have "map rank (getWeeklyLeaderboard tid wb d) = [1..<Suc (length (aggregate tid wb d))]"
    unfolding getWeeklyLeaderboard_def rankResults_def sortByTotalDesc_def addRanks_rank by simp
  then have "map rank (getWeeklyLeaderboard tid wb d) = [1..<Suc (length (getWeeklyLeaderboard tid wb d))]"
    unfolding getWeeklyLeaderboard_def length_rankResults .
  then show ?thesis
    unfolding getWeeklyLeaderboard_def
    using rankResults_totalScore [of _ "aggregate tid wb d"] rankResults_sorted [of "aggregate tid wb d"]
      rankResults_stable [of _ "aggregate tid wb d"]
    by (intro conjI ballI allI) (assumption | simp)+
qed

lemma ex_board:
  "map le_userId (getWeeklyLeaderboard 7 ex_week ex_board_db) = [1, 2]
   \<and> map baseScore (getWeeklyLeaderboard 7 ex_week ex_board_db) = [20, 30]
   \<and> map totalScore (getWeeklyLeaderboard 7 ex_week ex_board_db) = [32, 30]"
  by code_simp

text \<open>User 1 (base 20, streak 5, total 32) is ranked before user 2 (base 30,
  no streak, total 30).\<close>
theorem getWeeklyLeaderboard_ranking_witness:
  "map le_userId (getWeeklyLeaderboard 7 ex_week ex_board_db) = [1, 2]
   \<and> map baseScore (getWeeklyLeaderboard 7 ex_week ex_board_db) = [20, 30]
   \<and> map totalScore (getWeeklyLeaderboard 7 ex_week ex_board_db) = [32, 30]
   \<and> sorted_wrt (\<lambda>a b. totalScore b \<le> totalScore a) (getWeeklyLeaderboard 7 ex_week ex_board_db)
   \<and> map rank (getWeeklyLeaderboard 7 ex_week ex_board_db) = [1, 2]"
proof -
  have "length (map le_userId (getWeeklyLeaderboard 7 ex_week ex_board_db)) = length [1 :: nat, 2]"
    using ex_board by simp
  then have n: "length (getWeeklyLeaderboard 7 ex_week ex_board_db) = 2" by simp
  have u: "[1..<Suc 2] = [1, 2]" by (simp add: upt_rec)
  from getWeeklyLeaderboard_ranking [of 7 ex_week ex_board_db]
  have "sorted_wrt (\<lambda>a b. totalScore b \<le> totalScore a) (getWeeklyLeaderboard 7 ex_week ex_board_db)
      \<and> map rank (getWeeklyLeaderboard 7 ex_week ex_board_db)
          = [1..<Suc (length (getWeeklyLeaderboard 7 ex_week ex_board_db))]"
    by (elim conjE) (intro conjI)
  then show ?thesis using ex_board n u by simp
qed

end
